theory Spec2Isabelle
  imports Complex_Main "HOL-Library.Word"
begin

section \<open>Values of the Python program\<close>

text \<open>
  A Python \<open>str\<close> is a sequence of Unicode code points, so text is modelled as a list
  of code points. ASCII literals of the source are written with \<open>str\<close>.
\<close>

type_synonym pystr = "nat list"

definition str :: "string \<Rightarrow> pystr" where
  "str s = map of_char s"

text \<open>The exceptions that the modelled code paths and the libraries raise.\<close>

datatype error =
    ValueError | IndexError | ZeroDivisionError | OverflowError | TypeError | RuntimeError

text \<open>
  A numpy float (IEEE binary64): a finite value, NaN, or one of the two infinities. A
  finite value is kept as the real number it stands for; the two zeros are not told
  apart. \<open>float_ne\<close> is the comparison \<open>!=\<close>: NaN differs from everything, itself
  included.
\<close>

datatype float64 = Num real | NaN | PInf | NInf

definition float_ne :: "float64 \<Rightarrow> float64 \<Rightarrow> bool" where
  "float_ne a b = (a = NaN \<or> b = NaN \<or> a \<noteq> b)"

text \<open>
  Python indexing \<open>xs[i]\<close>: a negative index counts from the end, and an index
  outside the sequence raises IndexError.
\<close>

definition getitem :: "'a list \<Rightarrow> int \<Rightarrow> error + 'a" where
  "getitem xs i =
     (if 0 \<le> i \<and> i < int (length xs) then Inr (xs ! nat i)
      else if i < 0 \<and> - int (length xs) \<le> i then Inr (xs ! nat (int (length xs) + i))
      else Inl IndexError)"

section \<open>Lines and the closing of a line\<close>

text \<open>
  A \<open>Line2D\<close> as far as the source reads and writes it: the two data arrays behind
  \<open>get_data\<close>/\<open>set_data\<close>, and the \<open>color\<close> keyword it was created with.
\<close>

record line2d =
  xdata :: "float64 list"
  ydata :: "float64 list"
  line_color :: "pystr option"

text \<open>
  \<open>RadarAxes._close_line\<close> (an Isabelle name cannot start with an underscore).
  The test looks at the x array only; \<open>x[0]\<close>, \<open>x[-1]\<close> and \<open>y[0]\<close> raise
  IndexError on an empty array. The result is the line after the call.
\<close>

definition close_line :: "line2d \<Rightarrow> error + line2d" where
  "close_line line =
     (case getitem (xdata line) 0 of
        Inl e \<Rightarrow> Inl e
      | Inr x0 \<Rightarrow>
          (case getitem (xdata line) (- 1) of
             Inl e \<Rightarrow> Inl e
           | Inr xl \<Rightarrow>
               if float_ne x0 xl then
                 (case getitem (ydata line) 0 of
                    Inl e \<Rightarrow> Inl e
                  | Inr y0 \<Rightarrow>
                      Inr (line\<lparr>xdata := xdata line @ [x0], ydata := ydata line @ [y0]\<rparr>))
               else Inr line))"

text \<open>
  The library's \<open>plot\<close> that \<open>RadarAxes.plot\<close> calls through \<open>super()\<close>, for
  positional arguments that are pairs of one-dimensional arrays \<open>x, y\<close>: one line per
  pair, and ValueError when the two arrays of a pair differ in length.
\<close>

definition Axes_plot ::
  "(float64 list \<times> float64 list) list \<Rightarrow> pystr option \<Rightarrow> error + line2d list" where
  "Axes_plot args c =
     (if list_ex (\<lambda>(x, y). length x \<noteq> length y) args then Inl ValueError
      else Inr (map (\<lambda>(x, y). \<lparr>xdata = x, ydata = y, line_color = c\<rparr>) args))"

text \<open>The loop \<open>for line in lines: self._close_line(line)\<close>; it stops at the first error.\<close>

fun close_lines :: "line2d list \<Rightarrow> error + line2d list" where
  "close_lines [] = Inr []"
| "close_lines (line # lines) =
     (case close_line line of
        Inl e \<Rightarrow> Inl e
      | Inr line' \<Rightarrow>
          (case close_lines lines of
             Inl e \<Rightarrow> Inl e
           | Inr lines' \<Rightarrow> Inr (line' # lines')))"

text \<open>
  \<open>RadarAxes.plot\<close>. The Python method returns nothing; the value here is the list of
  lines it has put on the axes, as they are when it returns.
\<close>

definition RadarAxes_plot ::
  "(float64 list \<times> float64 list) list \<Rightarrow> pystr option \<Rightarrow> error + line2d list" where
  "RadarAxes_plot args c =
     (case Axes_plot args c of
        Inl e \<Rightarrow> Inl e
      | Inr lines \<Rightarrow> close_lines lines)"






section \<open>Arithmetic of numpy numbers\<close>

text \<open>
  Rounding to the nearest binary64 number, ties to the even significand: \<open>rne\<close>
  rounds a real number to an integer that way, \<open>expo\<close> is the exponent of the last
  place of a number (52 below its leading bit, never below that of the subnormal
  numbers), and \<open>fl x\<close> is \<open>x\<close> rounded as if the exponent had no upper limit.
\<close>

definition rne :: "real \<Rightarrow> int" where
  "rne y =
     (if y - of_int \<lfloor>y\<rfloor> < 1 / 2 then \<lfloor>y\<rfloor>
      else if 1 / 2 < y - of_int \<lfloor>y\<rfloor> then \<lfloor>y\<rfloor> + 1
      else if even \<lfloor>y\<rfloor> then \<lfloor>y\<rfloor> else \<lfloor>y\<rfloor> + 1)"

definition expo :: "real \<Rightarrow> int" where
  "expo x = max (\<lfloor>log 2 \<bar>x\<bar>\<rfloor> - 52) (- 1074)"

definition fl :: "real \<Rightarrow> real" where
  "fl x = (if x = 0 then 0 else of_int (rne (x / 2 powi expo x)) * 2 powi expo x)"

text \<open>
  The largest finite binary64 number, and the result of an operation whose exact value
  is \<open>x\<close>: a rounded value beyond the largest number is an infinity.
\<close>

definition max64 :: real where
  "max64 = (2 ^ 53 - 1) * 2 ^ 971"

definition round64 :: "real \<Rightarrow> float64" where
  "round64 x =
     (if max64 < fl x then PInf else if fl x < - max64 then NInf else Num (fl x))"

text \<open>
  Addition of two floats, and multiplication and division of a float by a positive
  finite constant (the source multiplies by 3 and divides by 2 and by 4).
\<close>

fun fadd :: "float64 \<Rightarrow> float64 \<Rightarrow> float64" where
  "fadd (Num a) (Num b) = round64 (a + b)"
| "fadd NaN b = NaN"
| "fadd a NaN = NaN"
| "fadd PInf NInf = NaN"
| "fadd NInf PInf = NaN"
| "fadd PInf b = PInf"
| "fadd a PInf = PInf"
| "fadd NInf b = NInf"
| "fadd a NInf = NInf"

fun fmul :: "float64 \<Rightarrow> real \<Rightarrow> float64" where
  "fmul (Num a) c = round64 (a * c)"
| "fmul a c = a"

fun fdiv :: "float64 \<Rightarrow> real \<Rightarrow> float64" where
  "fdiv (Num a) c = round64 (a / c)"
| "fdiv a c = a"

text \<open>The order of floats, as \<open><\<close> and \<open><=\<close> compute it: false when a side is NaN.\<close>

fun float_less :: "float64 \<Rightarrow> float64 \<Rightarrow> bool" where
  "float_less (Num a) (Num b) = (a < b)"
| "float_less NInf (Num b) = True"
| "float_less NInf PInf = True"
| "float_less (Num a) PInf = True"
| "float_less a b = False"


text \<open>\<open>np.pi\<close>, the binary64 number nearest to \<open>\<pi>\<close>.\<close>

definition pi64 :: real where
  "pi64 = 884279719003555 / 2 ^ 48"

text \<open>
  A numpy scalar is a 64-bit integer or a float. Integer addition and multiplication
  wrap around; true division converts to float first; an integer meets a float as the
  float nearest to it.
\<close>

datatype npnum = Int64 "64 word" | Float64 float64

fun to_float :: "npnum \<Rightarrow> float64" where
  "to_float (Int64 v) = round64 (real_of_int (sint v))"
| "to_float (Float64 x) = x"

fun np_add :: "npnum \<Rightarrow> npnum \<Rightarrow> npnum" where
  "np_add (Int64 a) (Int64 b) = Int64 (a + b)"
| "np_add a b = Float64 (fadd (to_float a) (to_float b))"

text \<open>\<open>a * c\<close> and \<open>a / c\<close> for a numpy scalar \<open>a\<close> and a small positive Python integer \<open>c\<close>.\<close>

fun np_mul :: "npnum \<Rightarrow> nat \<Rightarrow> npnum" where
  "np_mul (Int64 a) c = Int64 (a * of_nat c)"
| "np_mul (Float64 x) c = Float64 (fmul x (real c))"

definition np_truediv :: "npnum \<Rightarrow> nat \<Rightarrow> npnum" where
  "np_truediv a c = Float64 (fdiv (to_float a) (real c))"


section \<open>The factory and the class it registers\<close>

text \<open>
  \<open>np.linspace(start, stop, num, endpoint=False)\<close> for two floats of moderate size
  (the source passes \<open>0\<close> and \<open>2 * np.pi\<close>, so that no operation overflows): a
  negative \<open>num\<close> raises ValueError; otherwise \<open>delta = stop - start\<close>,
  \<open>step = delta / num\<close>, and the \<open>k\<close>-th of the \<open>num\<close> samples is
  \<open>k * step + start\<close>, or \<open>(k / num) * delta + start\<close> should \<open>step\<close> be zero,
  every operation rounded.
\<close>

definition linspace :: "real \<Rightarrow> real \<Rightarrow> int \<Rightarrow> error + real list" where
  "linspace start stop num =
     (if num < 0 then Inl ValueError
      else
        (let delta = fl (stop - start);
             step = fl (delta / real_of_int num)
         in Inr (map (\<lambda>k. fl ((if step = 0 then fl (fl (real k / real_of_int num) * delta)
                                  else fl (real k * step)) + start))
                   [0..<nat num])))"

text \<open>
  The class \<open>RadarAxes\<close> is defined inside \<open>radar_factory\<close> and refers to its
  variables \<open>num_vars\<close>, \<open>frame\<close> and \<open>theta\<close>: a class value is that closure. A
  class exists only once \<open>np.linspace\<close> has accepted \<open>num_vars\<close>, so its number of
  axes is not negative.
\<close>

record radar_class =
  cls_num_vars :: nat
  cls_frame :: pystr
  cls_theta :: "real list"

text \<open>
  Library objects the class methods build are kept as the constructor calls with their
  arguments. A transform is a tree, as in the library: \<open>Composite a b\<close> is the
  library's \<open>a + b\<close> (first \<open>a\<close>, then \<open>b\<close>), \<open>TransAxes\<close> is \<open>self.transAxes\<close>.
\<close>

datatype patch =
    Circle "real \<times> real" real
  | RegularPolygon "real \<times> real" nat real pystr

record affine2d =
  m_a :: real
  m_b :: real
  m_c :: real
  m_d :: real
  m_e :: real
  m_f :: real

datatype transform =
    Affine affine2d
  | TransAxes
  | Composite transform transform

datatype path = Unit_regular_polygon nat

record spine =
  spine_type :: pystr
  spine_path :: path
  spine_transform :: transform

datatype spines =
    Polar_spines
  | Spine_dict "(pystr \<times> spine) list"

text \<open>
  The two library constructors that take the number of vertices. Both compute
  \<open>2 * np.pi / numVertices\<close> with Python numbers, which raises ZeroDivisionError for
  no vertices.
\<close>

definition unit_regular_polygon :: "nat \<Rightarrow> error + path" where
  "unit_regular_polygon numVertices =
     (if numVertices = 0 then Inl ZeroDivisionError else Inr (Unit_regular_polygon numVertices))"

definition RegularPolygon_init :: "real \<times> real \<Rightarrow> nat \<Rightarrow> real \<Rightarrow> pystr \<Rightarrow> error + patch" where
  "RegularPolygon_init xy numVertices radius edgecolor =
     (if numVertices = 0 then Inl ZeroDivisionError
      else Inr (RegularPolygon xy numVertices radius edgecolor))"

text \<open>
  \<open>Affine2D()\<close> is the identity matrix \<open>[[a, c, e], [b, d, f], [0, 0, 1]]\<close>;
  \<open>scale\<close> multiplies the first row by \<open>sx\<close> and the second by \<open>sy\<close> (\<open>scale(s)\<close>
  is \<open>scale(s, s)\<close>); \<open>translate\<close> adds to the last column.
\<close>

definition Affine2D :: affine2d where
  "Affine2D = \<lparr>m_a = 1, m_b = 0, m_c = 0, m_d = 1, m_e = 0, m_f = 0\<rparr>"

definition scale :: "real \<Rightarrow> real \<Rightarrow> affine2d \<Rightarrow> affine2d" where
  "scale sx sy m =
     m\<lparr>m_a := m_a m * sx, m_c := m_c m * sx, m_e := m_e m * sx,
       m_b := m_b m * sy, m_d := m_d m * sy, m_f := m_f m * sy\<rparr>"

definition translate :: "real \<Rightarrow> real \<Rightarrow> affine2d \<Rightarrow> affine2d" where
  "translate tx ty m = m\<lparr>m_e := m_e m + tx, m_f := m_f m + ty\<rparr>"

definition affine_point :: "affine2d \<Rightarrow> real \<times> real \<Rightarrow> real \<times> real" where
  "affine_point m p =
     (m_a m * fst p + m_c m * snd p + m_e m, m_b m * fst p + m_d m * snd p + m_f m)"

text \<open>
  What a transform does to a point, given what the axes' own transform \<open>transAxes\<close>
  does (it depends on the figure's layout, which the source does not fix).
\<close>

fun transform_point ::
  "(real \<times> real \<Rightarrow> real \<times> real) \<Rightarrow> transform \<Rightarrow> real \<times> real \<Rightarrow> real \<times> real" where
  "transform_point ta (Affine m) p = affine_point m p"
| "transform_point ta TransAxes p = ta p"
| "transform_point ta (Composite t1 t2) p = transform_point ta t2 (transform_point ta t1 p)"

text \<open>\<open>RadarAxes._gen_axes_patch\<close>.\<close>

definition gen_axes_patch :: "radar_class \<Rightarrow> error + patch" where
  "gen_axes_patch cls =
     (if cls_frame cls = str ''circle'' then Inr (Circle (0.5, 0.5) 0.5)
      else if cls_frame cls = str ''polygon'' then
        RegularPolygon_init (0.5, 0.5) (cls_num_vars cls) 0.5 (str ''k'')
      else Inl ValueError)"

text \<open>
  \<open>RadarAxes._gen_axes_spines\<close>. For the circle the library's own spines are returned
  (\<open>Polar_spines\<close>); for the polygon a dictionary with the one key \<open>'polar'\<close>, whose
  spine is made from the path once that has been built.
\<close>

definition gen_axes_spines :: "radar_class \<Rightarrow> error + spines" where
  "gen_axes_spines cls =
     (if cls_frame cls = str ''circle'' then Inr Polar_spines
      else if cls_frame cls = str ''polygon'' then
        (case unit_regular_polygon (cls_num_vars cls) of
           Inl e \<Rightarrow> Inl e
         | Inr p \<Rightarrow>
             Inr (Spine_dict
               [(str ''polar'',
                 \<lparr>spine_type = str ''circle'',
                  spine_path = p,
                  spine_transform =
                    Composite (Affine (translate 0.5 0.5 (scale 0.5 0.5 Affine2D))) TransAxes\<rparr>)]))
      else Inl ValueError)"

text \<open>
  An axes object of the class. Creating one (\<open>__init__\<close>, through the library's
  constructor) asks the two methods above for the spines and the patch, then turns the
  zero angle to the top.
\<close>

record radar_axes =
  ax_class :: radar_class
  ax_patch :: patch
  ax_spines :: spines
  ax_theta_zero_location :: pystr

definition RadarAxes_init :: "radar_class \<Rightarrow> error + radar_axes" where
  "RadarAxes_init cls =
     (case gen_axes_spines cls of
        Inl e \<Rightarrow> Inl e
      | Inr sp \<Rightarrow>
          (case gen_axes_patch cls of
             Inl e \<Rightarrow> Inl e
           | Inr pa \<Rightarrow>
               Inr \<lparr>ax_class = cls, ax_patch = pa, ax_spines = sp,
                    ax_theta_zero_location = str ''N''\<rparr>))"

section \<open>The plotting library as a log of effects\<close>

text \<open>
  The state the program acts on is the plotting library's: its table of projections,
  its figures and what is on them, the files written. It is modelled as the list of
  the effects so far, oldest first; a call that raises leaves no entry. Text and
  numbers are logged as the source passes them. A legend is logged with the lines
  that are on the axes when it is made and with the labels given; the library pairs
  them in order, as far as both last, and shows the labels so paired.
\<close>

datatype call =
    Register_projection pystr radar_class
  | Figure "real \<times> real"
  | Add_subplot radar_axes
  | Subplots_adjust real real real real
  | Set_rgrids "npnum list"
  | Add_line line2d
  | Set_thetagrids "real list" "pystr list"
  | Legend "line2d list" "pystr list" "real \<times> real" real pystr
  | Fig_text real real pystr
  | Savefig pystr

text \<open>
  What the source cannot know of the library and its surroundings is a parameter of
  the model: whether \<open>set_rgrids\<close> raises for the radii it is given (on the fresh
  axes it always gets in \<open>draw\<close>), and whether \<open>savefig\<close> raises for a file name,
  given all that has been put on the figure (the file format, the file system, and
  the rendering of the texts are decided there).
\<close>

record library =
  set_rgrids_raises :: "npnum list \<Rightarrow> error option"
  savefig_raises :: "call list \<Rightarrow> pystr \<Rightarrow> error option"

text \<open>The table of projections after a log: a later registration of a name wins.\<close>

definition register :: "(pystr \<rightharpoonup> radar_class) \<Rightarrow> call \<Rightarrow> (pystr \<rightharpoonup> radar_class)" where
  "register reg c = (case c of Register_projection name cls \<Rightarrow> reg(name \<mapsto> cls) | _ \<Rightarrow> reg)"

definition projections :: "call list \<Rightarrow> (pystr \<rightharpoonup> radar_class)" where
  "projections w = foldl register Map.empty w"

text \<open>The lines on the axes made last.\<close>

definition put_line :: "line2d list \<Rightarrow> call \<Rightarrow> line2d list" where
  "put_line ls c = (case c of Add_subplot ax \<Rightarrow> [] | Add_line l \<Rightarrow> ls @ [l] | _ \<Rightarrow> ls)"

definition axes_lines :: "call list \<Rightarrow> line2d list" where
  "axes_lines w = foldl put_line [] w"

text \<open>
  \<open>RadarDiagram.radar_factory\<close>: computes the angles, registers the class under its
  \<open>name = 'radar'\<close> and returns the angles.
\<close>

definition radar_factory ::
  "int \<Rightarrow> pystr \<Rightarrow> call list \<Rightarrow> (error + real list) \<times> call list" where
  "radar_factory num_vars frame w =
     (case linspace 0 (2 * pi64) num_vars of
        Inl e \<Rightarrow> (Inl e, w)
      | Inr theta \<Rightarrow>
          (Inr theta,
           w @ [Register_projection (str ''radar'')
                  \<lparr>cls_num_vars = nat num_vars, cls_frame = frame, cls_theta = theta\<rparr>]))"

text \<open>
  \<open>plt.subplots(figsize=..., subplot_kw=dict(projection=...))\<close> with one row and one
  column: a new figure, then one axes of the class registered under the name
  (ValueError for a name that is not registered).
\<close>

definition subplots ::
  "real \<times> real \<Rightarrow> pystr \<Rightarrow> call list \<Rightarrow> (error + radar_axes) \<times> call list" where
  "subplots figsize projection w =
     (case projections w projection of
        None \<Rightarrow> (Inl ValueError, w @ [Figure figsize])
      | Some cls \<Rightarrow>
          (case RadarAxes_init cls of
             Inl e \<Rightarrow> (Inl e, w @ [Figure figsize])
           | Inr ax \<Rightarrow> (Inr ax, w @ [Figure figsize, Add_subplot ax])))"

section \<open>Drawing\<close>

text \<open>
  The argument \<open>data\<close> of \<open>draw\<close> is a sequence of series, each a sequence of
  numbers: of Python integers within 64 bits, which numpy makes an integer array, or
  of floats. numpy raises ValueError when the series differ in length. \<open>np.average\<close>
  of an array without elements gives NaN with a warning, and its value is dropped by
  \<open>draw\<close>, so only whether it raises is modelled. \<open>np.min\<close> and \<open>np.max\<close> of an
  array without elements raise ValueError; on floats they give NaN when one element
  is NaN.
\<close>

datatype ndarray = Int_array "64 word list list" | Float_array "float64 list list"

definition ragged :: "'a list list \<Rightarrow> bool" where
  "ragged rows = list_ex (\<lambda>row. length row \<noteq> length (hd rows)) rows"

definition rejected :: "ndarray \<Rightarrow> bool" where
  "rejected data = (case data of Int_array rows \<Rightarrow> ragged rows | Float_array rows \<Rightarrow> ragged rows)"

definition np_average :: "ndarray \<Rightarrow> error option" where
  "np_average data = (if rejected data then Some ValueError else None)"

definition int_min :: "64 word \<Rightarrow> 64 word \<Rightarrow> 64 word" where
  "int_min a b = (if sint b < sint a then b else a)"

definition int_max :: "64 word \<Rightarrow> 64 word \<Rightarrow> 64 word" where
  "int_max a b = (if sint a < sint b then b else a)"

definition float_min :: "float64 \<Rightarrow> float64 \<Rightarrow> float64" where
  "float_min a b = (if a = NaN then a else if b = NaN then b else if float_less b a then b else a)"

definition float_max :: "float64 \<Rightarrow> float64 \<Rightarrow> float64" where
  "float_max a b = (if a = NaN then a else if b = NaN then b else if float_less a b then b else a)"

definition reduce :: "('a \<Rightarrow> 'a \<Rightarrow> 'a) \<Rightarrow> 'a list \<Rightarrow> error + 'a" where
  "reduce f xs = (case xs of [] \<Rightarrow> Inl ValueError | x # rest \<Rightarrow> Inr (foldl f x rest))"

definition np_min :: "ndarray \<Rightarrow> error + npnum" where
  "np_min data =
     (if rejected data then Inl ValueError
      else case data of
        Int_array rows \<Rightarrow> map_sum id Int64 (reduce int_min (concat rows))
      | Float_array rows \<Rightarrow> map_sum id Float64 (reduce float_min (concat rows)))"

definition np_max :: "ndarray \<Rightarrow> error + npnum" where
  "np_max data =
     (if rejected data then Inl ValueError
      else case data of
        Int_array rows \<Rightarrow> map_sum id Int64 (reduce int_max (concat rows))
      | Float_array rows \<Rightarrow> map_sum id Float64 (reduce float_max (concat rows)))"

text \<open>
  The tuple handed to \<open>set_rgrids\<close>:
  \<open>(np.min(data), (np.min(data) + np.max(data)) / 2, np.max(data) * 3 / 4, np.max(data))\<close>.
\<close>

definition rgrid_levels :: "ndarray \<Rightarrow> error + npnum list" where
  "rgrid_levels data =
     (case np_min data of
        Inl e \<Rightarrow> Inl e
      | Inr mn \<Rightarrow>
          (case np_max data of
             Inl e \<Rightarrow> Inl e
           | Inr mx \<Rightarrow>
               Inr [mn, np_truediv (np_add mn mx) 2, np_truediv (np_mul mx 3) 4, mx]))"

text \<open>\<open>axs.set_rgrids(radii)\<close>, as far as the library lets it happen.\<close>

definition set_rgrids :: "library \<Rightarrow> npnum list \<Rightarrow> call list \<Rightarrow> error option \<times> call list" where
  "set_rgrids lib radii w =
     (case set_rgrids_raises lib radii of
        Some e \<Rightarrow> (Some e, w)
      | None \<Rightarrow> (None, w @ [Set_rgrids radii]))"

text \<open>
  The series of \<open>data\<close> as \<open>enumerate(data)\<close> hands them to \<open>plot\<close>; a line keeps
  the numbers as they are (an integer as the real number it is).
\<close>

definition series :: "ndarray \<Rightarrow> float64 list list" where
  "series data =
     (case data of
        Int_array rows \<Rightarrow> map (map (\<lambda>v. Num (real_of_int (sint v)))) rows
      | Float_array rows \<Rightarrow> rows)"

text \<open>
  The loop \<open>for ind, i in enumerate(data): axs.plot(theta, i, color=colors[ind])\<close>,
  from position \<open>ind\<close> on. \<open>colors[ind]\<close> is evaluated before the call of \<open>plot\<close>.
\<close>

fun plot_series ::
  "real list \<Rightarrow> pystr list \<Rightarrow> nat \<Rightarrow> float64 list list \<Rightarrow> call list \<Rightarrow> error option \<times> call list" where
  "plot_series theta colors ind [] w = (None, w)"
| "plot_series theta colors ind (i # rest) w =
     (case getitem colors (int ind) of
        Inl e \<Rightarrow> (Some e, w)
      | Inr c \<Rightarrow>
          (case RadarAxes_plot [(map Num theta, i)] (Some c) of
             Inl e \<Rightarrow> (Some e, w)
           | Inr lines \<Rightarrow> plot_series theta colors (Suc ind) rest (w @ map Add_line lines)))"

text \<open>
  \<open>RadarAxes.set_varlabels\<close>: \<open>self.set_thetagrids(np.degrees(theta), labels)\<close>, with
  the \<open>theta\<close> of the class. \<open>np.degrees\<close> multiplies by the float \<open>180 / np.pi\<close>.
  The library puts one tick at each angle and refuses, with ValueError, a non-empty
  list of labels of another length.
\<close>

definition degrees :: "real \<Rightarrow> real" where
  "degrees x = fl (x * fl (180 / pi64))"

definition set_varlabels :: "radar_axes \<Rightarrow> pystr list \<Rightarrow> call list \<Rightarrow> error option \<times> call list" where
  "set_varlabels ax labels w =
     (if labels \<noteq> [] \<and> length labels \<noteq> length (cls_theta (ax_class ax)) then (Some ValueError, w)
      else (None, w @ [Set_thetagrids (map degrees (cls_theta (ax_class ax))) labels]))"

text \<open>
  \<open>axs.legend(labels, loc=..., labelspacing=..., fontsize=...)\<close>: the lines on the
  axes get the labels in order.
\<close>

definition legend ::
  "pystr list \<Rightarrow> real \<times> real \<Rightarrow> real \<Rightarrow> pystr \<Rightarrow> call list \<Rightarrow> call list" where
  "legend labels loc labelspacing fontsize w =
     w @ [Legend (axes_lines w) labels loc labelspacing fontsize]"

text \<open>\<open>fig.savefig(filename)\<close>, as far as the library lets it happen.\<close>

definition savefig :: "library \<Rightarrow> pystr \<Rightarrow> call list \<Rightarrow> error option \<times> call list" where
  "savefig lib filename w =
     (case savefig_raises lib w filename of
        Some e \<Rightarrow> (Some e, w)
      | None \<Rightarrow> (None, w @ [Savefig filename]))"

text \<open>The four legend texts of \<open>draw\<close>, in code points.\<close>

definition legend_labels :: "pystr list" where
  "legend_labels =
     [[1053, 1072, 1095, 1072, 1083, 1100, 1085, 1099, 1077, 32, 1074, 1099, 1095, 1080,
       1089, 1083, 1077, 1085, 1080, 1103],
      [1042, 1099, 1095, 1080, 1089, 1083, 1077, 1085, 1080, 1103, 32, 1095, 1077, 1088,
       1077, 1079, 32, 49, 47, 52, 32, 1087, 1088, 1086, 1093, 1086, 1076, 1086, 1074],
      [1042, 1099, 1095, 1080, 1089, 1083, 1077, 1085, 1080, 1103, 32, 1095, 1077, 1088,
       1077, 1079, 32, 51, 47, 52, 32, 1087, 1088, 1086, 1093, 1086, 1076, 1086, 1074],
      [1050, 1086, 1085, 1077, 1095, 1085, 1099, 1077, 32, 1074, 1099, 1095, 1080, 1089,
       1083, 1077, 1085, 1080, 1103]]"

text \<open>
  \<open>RadarDiagram.draw\<close>, from the log \<open>w\<close> of what happened before the call. The
  result is the exception that ended the call, if any, and the log at that moment.
  A decimal constant of the source is the float nearest to it.
\<close>

definition draw ::
  "library \<Rightarrow> pystr \<Rightarrow> ndarray \<Rightarrow> pystr list \<Rightarrow> pystr \<Rightarrow> call list \<Rightarrow>
     error option \<times> call list" where
  "draw lib filename data label title w =
     (case radar_factory 28 (str ''polygon'') w of
        (Inl e, w1) \<Rightarrow> (Some e, w1)
      | (Inr theta, w1) \<Rightarrow>
          (case subplots (12, 12) (str ''radar'') w1 of
             (Inl e, w2) \<Rightarrow> (Some e, w2)
           | (Inr axs, w2) \<Rightarrow>
               (let w3 = w2 @ [Subplots_adjust 1 1 (fl 0.85) (fl 0.05)];
                    colors = [str ''b'', str ''r'']
                in case np_average data of
                     Some e \<Rightarrow> (Some e, w3)
                   | None \<Rightarrow>
                       (case rgrid_levels data of
                          Inl e \<Rightarrow> (Some e, w3)
                        | Inr levels \<Rightarrow>
                            (case set_rgrids lib levels w3 of
                               (Some e, w4) \<Rightarrow> (Some e, w4)
                             | (None, w4) \<Rightarrow>
                                 (case plot_series theta colors 0 (series data) w4 of
                                    (Some e, w5) \<Rightarrow> (Some e, w5)
                                  | (None, w5) \<Rightarrow>
                                      (case set_varlabels axs label w5 of
                                         (Some e, w6) \<Rightarrow> (Some e, w6)
                                       | (None, w6) \<Rightarrow>
                                           savefig lib filename
                                             (legend legend_labels (- fl 0.13, fl 0.99) (fl 0.1)
                                                (str ''medium'') w6
                                              @ [Fig_text 0.5 (fl 0.965) title]))))))))"

text \<open>The angles \<open>draw\<close> works with, and the class it registers.\<close>

definition theta28 :: "real list" where
  "theta28 = map (\<lambda>k. real k * (2 * pi64 / 28)) [0..<28]"

definition class28 :: radar_class where
  "class28 = \<lparr>cls_num_vars = 28, cls_frame = str ''polygon'', cls_theta = theta28\<rparr>"


section \<open>Notions used in the statements\<close>

text \<open>\<open>_close_line\<close> called twice on the same line, the second call on what the first left.\<close>

definition close_line_twice :: "line2d \<Rightarrow> error + line2d" where
  "close_line_twice line =
     (case close_line line of Inl e \<Rightarrow> Inl e | Inr line' \<Rightarrow> close_line line')"

text \<open>
  The elements of an array, whether it has none, and the levels \<open>draw\<close> computes from
  it (none where numpy raises).
\<close>

definition elements :: "ndarray \<Rightarrow> npnum list" where
  "elements data =
     (case data of
        Int_array rows \<Rightarrow> map Int64 (concat rows)
      | Float_array rows \<Rightarrow> map Float64 (concat rows))"

definition empty_array :: "ndarray \<Rightarrow> bool" where
  "empty_array data = (elements data = [])"

definition levels :: "ndarray \<Rightarrow> npnum list" where
  "levels data = (case rgrid_levels data of Inl e \<Rightarrow> [] | Inr radii \<Rightarrow> radii)"

text \<open>
  The axes that \<open>draw\<close> gets from \<open>plt.subplots\<close>, the line \<open>draw\<close> plots for one
  series in colour \<open>c\<close>, a library that lets everything happen, and three readings of
  a log: the texts its legends show, the labels its legends were given, the number of
  figures made, the names of the files saved.
\<close>

definition axes28 :: radar_axes where
  "axes28 =
     \<lparr>ax_class = class28,
      ax_patch = RegularPolygon (0.5, 0.5) 28 0.5 (str ''k''),
      ax_spines = Spine_dict
        [(str ''polar'',
          \<lparr>spine_type = str ''circle'',
           spine_path = Unit_regular_polygon 28,
           spine_transform =
             Composite (Affine (translate 0.5 0.5 (scale 0.5 0.5 Affine2D))) TransAxes\<rparr>)],
      ax_theta_zero_location = str ''N''\<rparr>"

definition series_line :: "pystr \<Rightarrow> float64 list \<Rightarrow> line2d" where
  "series_line c row =
     \<lparr>xdata = map Num (theta28 @ [hd theta28]),
      ydata = row @ [hd row],
      line_color = Some c\<rparr>"

definition permissive :: library where
  "permissive = \<lparr>set_rgrids_raises = (\<lambda>radii. None), savefig_raises = (\<lambda>w filename. None)\<rparr>"

fun legends :: "call list \<Rightarrow> pystr list list" where
  "legends [] = []"
| "legends (Legend handles labels loc spacing fontsize # w) =
     map snd (zip handles labels) # legends w"
| "legends (c # w) = legends w"

fun legend_arguments :: "call list \<Rightarrow> pystr list list" where
  "legend_arguments [] = []"
| "legend_arguments (Legend handles labels loc spacing fontsize # w) =
     labels # legend_arguments w"
| "legend_arguments (c # w) = legend_arguments w"



section \<open>Facts about the model\<close>

subsection \<open>Rounding\<close>

lemma rne_of_int: "rne (of_int m) = m"
  by (simp add: rne_def)

lemma rne_error: "\<bar>of_int (rne y) - y\<bar> \<le> 1 / 2"
  unfolding rne_def by (auto simp: abs_if) linarith+

lemma rne_abs_le:
  assumes "\<bar>y\<bar> \<le> of_int b"
  shows "\<bar>rne y\<bar> \<le> b"
proof -
  have lo: "- of_int b \<le> y" and hi: "y \<le> of_int b" using assms by (auto simp: abs_le_iff)
  then have f: "- b \<le> \<lfloor>y\<rfloor>" "\<lfloor>y\<rfloor> \<le> b" by linarith+
  show ?thesis
  proof (cases "\<lfloor>y\<rfloor> = b")
    case True
    with hi have "y = of_int b" by linarith
    with f show ?thesis by (simp add: rne_of_int)
  next
    case False
    with f have "\<lfloor>y\<rfloor> + 1 \<le> b" by linarith
    moreover have "rne y = \<lfloor>y\<rfloor> \<or> rne y = \<lfloor>y\<rfloor> + 1" by (simp add: rne_def)
    ultimately show ?thesis using f by (auto simp: abs_le_iff)
  qed
qed

lemma floor_log2:
  assumes "2 powi e \<le> \<bar>x\<bar>" and "\<bar>x\<bar> < 2 powi (e + 1)"
  shows "\<lfloor>log 2 \<bar>x\<bar>\<rfloor> = e"
proof -
  have pos: "0 < \<bar>x\<bar>" using assms(1) by (smt (verit) zero_less_power_int)
  have "(2::real) powr real_of_int e = 2 powi e" "(2::real) powr (real_of_int e + 1) = 2 powi (e + 1)"
    using powr_real_of_int' [of 2 e] powr_real_of_int' [of 2 "e + 1"] by simp_all
  with assms show ?thesis
    using floor_log_eq_powr_iff [OF pos, of 2 e] by simp
qed

lemma binade:
  assumes "x \<noteq> 0"
  shows "2 powi \<lfloor>log 2 \<bar>x\<bar>\<rfloor> \<le> \<bar>x\<bar> \<and> \<bar>x\<bar> < 2 powi (\<lfloor>log 2 \<bar>x\<bar>\<rfloor> + 1)"
proof -
  have pos: "0 < \<bar>x\<bar>" using assms by simp
  have "(2::real) powr real_of_int k = 2 powi k" for k
    using powr_real_of_int' [of 2 k] by simp
  moreover have "(2::real) powr (real_of_int k + 1) = 2 powi (k + 1)" for k
    using powr_real_of_int' [of 2 "k + 1"] by simp
  ultimately show ?thesis
    using floor_log_eq_powr_iff [OF pos, of 2 "\<lfloor>log 2 \<bar>x\<bar>\<rfloor>"] by simp
qed

lemma expo_binade:
  assumes "2 powi e \<le> \<bar>x\<bar>" and "\<bar>x\<bar> < 2 powi (e + 1)" and "- 1022 \<le> e"
  shows "expo x = e - 52"
  using floor_log2 [OF assms(1,2)] assms(3) by (simp add: expo_def)

lemma fl_binade:
  assumes "2 powi e \<le> \<bar>x\<bar>" and "\<bar>x\<bar> < 2 powi (e + 1)" and "- 1022 \<le> e"
  shows "fl x = of_int (rne (x / 2 powi (e - 52))) * 2 powi (e - 52)"
proof -
  have "x \<noteq> 0" using assms(1) by (smt (verit) zero_less_power_int)
  then show ?thesis by (simp add: fl_def expo_binade [OF assms])
qed

lemma fl_error_ulp: "\<bar>fl x - x\<bar> \<le> 2 powi expo x / 2"
proof (cases "x = 0")
  case True
  then show ?thesis by (simp add: fl_def)
next
  case False
  let ?p = "(2::real) powi expo x"
  have p: "0 < ?p" by simp
  have "fl x - x = (of_int (rne (x / ?p)) - x / ?p) * ?p"
    using False p by (simp add: fl_def field_simps)
  then have "\<bar>fl x - x\<bar> = \<bar>of_int (rne (x / ?p)) - x / ?p\<bar> * ?p"
    using p by (simp add: abs_mult)
  also have "\<dots> \<le> 1 / 2 * ?p"
    using rne_error [of "x / ?p"] p by (intro mult_right_mono) simp_all
  finally show ?thesis by simp
qed

lemma fl_error:
  assumes "2 powi (- 1022) \<le> \<bar>x\<bar>"
  shows "\<bar>fl x - x\<bar> \<le> \<bar>x\<bar> / 2 ^ 53"
proof -
  have nz: "x \<noteq> 0" using assms by (smt (verit) zero_less_power_int)
  let ?e = "\<lfloor>log 2 \<bar>x\<bar>\<rfloor>"
  from binade [OF nz] have b: "2 powi ?e \<le> \<bar>x\<bar>" "\<bar>x\<bar> < 2 powi (?e + 1)" by simp_all
  have "(2::real) powi (- 1022) < 2 powi (?e + 1)" using assms b(2) by linarith
  then have "- 1022 < ?e + 1"
    by (smt (verit) power_int_increasing)
  then have "- 1074 \<le> ?e - 52" by linarith
  then have ex: "expo x = ?e - 52" unfolding expo_def by (rule max_absorb1)
  have "(2::real) powi (?e - 52) = 2 powi ?e / 2 ^ 52"
    by (simp add: power_int_diff)
  with b(1) have "(2::real) powi expo x \<le> \<bar>x\<bar> / 2 ^ 52"
    by (simp add: ex divide_right_mono)
  with fl_error_ulp [of x] show ?thesis by simp
qed

lemma fl_exact:
  assumes "\<bar>m\<bar> \<le> 2 ^ 53" and "- 1074 \<le> e"
  shows "fl (of_int m * 2 powi e) = of_int m * 2 powi e"
proof (cases "m = 0")
  case True
  then show ?thesis by (simp add: fl_def)
next
  case False
  let ?x = "real_of_int m * 2 powi e"
  have nz: "?x \<noteq> 0" using False by simp
  let ?l = "\<lfloor>log 2 \<bar>?x\<bar>\<rfloor>"
  from binade [OF nz] have b: "2 powi ?l \<le> \<bar>?x\<bar>" by simp
  have absx: "\<bar>?x\<bar> = real_of_int \<bar>m\<bar> * 2 powi e" by (simp add: abs_mult)
  have int: "\<exists>k. ?x / 2 powi expo ?x = of_int k"
  proof (cases "expo ?x \<le> e")
    case True
    define p where "p = (2::real) powi expo ?x"
    have p: "0 < p" by (simp add: p_def)
    from True have "(2::real) powi e = p * 2 ^ nat (e - expo ?x)"
      unfolding p_def
      by (smt (verit) power_int_add power_int_of_nat int_nat_eq zero_neq_numeral)
    then have "?x / p = real_of_int m * 2 ^ nat (e - expo ?x)"
      using p by (simp add: field_simps)
    then have "?x / 2 powi expo ?x = of_int (m * 2 ^ nat (e - expo ?x))"
      by (simp add: p_def)
    then show ?thesis by blast
  next
    case gt: False
    with assms(2) have ex: "expo ?x = ?l - 52" by (simp add: expo_def max_def split: if_splits)
    have "real_of_int \<bar>m\<bar> \<le> 2 ^ 53" using assms(1) by (metis of_int_le_iff of_int_numeral of_int_power)
    then have "\<bar>?x\<bar> \<le> 2 ^ 53 * 2 powi e" unfolding absx
      by (intro mult_right_mono) simp_all
    also have "\<dots> = 2 powi (e + 53)" by (simp add: power_int_add)
    finally have "(2::real) powi ?l \<le> 2 powi (e + 53)" using b by linarith
    then have "?l \<le> e + 53"
      by (smt (verit) power_int_strict_increasing)
    with gt ex have l: "?l = e + 53" by linarith
    then have "(2::real) powi (e + 53) \<le> real_of_int \<bar>m\<bar> * 2 powi e" using b absx by simp
    then have "(2::real) ^ 53 * 2 powi e \<le> real_of_int \<bar>m\<bar> * 2 powi e"
      by (simp add: power_int_add)
    then have "(2::real) ^ 53 \<le> real_of_int \<bar>m\<bar>" by simp
    with \<open>real_of_int \<bar>m\<bar> \<le> 2 ^ 53\<close> have "real_of_int \<bar>m\<bar> = 2 ^ 53" by linarith
    then have m: "real_of_int m = 2 ^ 53 \<or> real_of_int m = - (2 ^ 53)" by (auto simp: abs_if split: if_splits)
    from l ex have "expo ?x = e + 1" by simp
    then have "?x / 2 powi expo ?x = real_of_int m / 2"
      by (simp add: power_int_add)
    with m have "?x / 2 powi expo ?x = of_int (2 ^ 52) \<or> ?x / 2 powi expo ?x = of_int (- (2 ^ 52))"
      by auto
    then show ?thesis by blast
  qed
  then obtain k where k: "?x / 2 powi expo ?x = of_int k" by blast
  then have "of_int (rne (?x / 2 powi expo ?x)) * 2 powi expo ?x = ?x / 2 powi expo ?x * 2 powi expo ?x"
    by (simp add: rne_of_int)
  also have "\<dots> = ?x" by simp
  finally show ?thesis using nz by (simp add: fl_def)
qed

lemma fl_dyadic:
  assumes "\<bar>m\<bar> \<le> 2 ^ 53" and "k \<le> 1074"
  shows "fl (real_of_int m / 2 ^ k) = real_of_int m / 2 ^ k"
proof -
  have "real_of_int m / 2 ^ k = real_of_int m * 2 powi (- int k)"
    by (simp add: power_int_minus field_simps)
  moreover have "- 1074 \<le> - int k" using assms(2) by simp
  ultimately show ?thesis using fl_exact [OF assms(1), of "- int k"] by simp
qed

lemma fl_idem: "fl (fl x) = fl x"
proof (cases "x = 0")
  case True
  then show ?thesis by (simp add: fl_def)
next
  case False
  let ?l = "\<lfloor>log 2 \<bar>x\<bar>\<rfloor>"
  let ?p = "(2::real) powi expo x"
  from binade [OF False] have "\<bar>x\<bar> < 2 powi (?l + 1)" by simp
  also have "(2::real) powi (?l + 1) = 2 powi (?l - 52) * 2 ^ 53"
    by (simp add: power_int_add power_int_diff)
  also have "\<dots> \<le> ?p * 2 ^ 53"
    by (intro mult_right_mono power_int_increasing) (simp_all add: expo_def)
  finally have "\<bar>x\<bar> / ?p \<le> 2 ^ 53" by (simp add: field_simps)
  then have "\<bar>x / ?p\<bar> \<le> real_of_int (2 ^ 53)" by simp
  then have "\<bar>rne (x / ?p)\<bar> \<le> 2 ^ 53" by (rule rne_abs_le)
  moreover have "- 1074 \<le> expo x" by (simp add: expo_def)
  ultimately have "fl (real_of_int (rne (x / ?p)) * ?p) = real_of_int (rne (x / ?p)) * ?p"
    by (rule fl_exact)
  with False show ?thesis by (simp add: fl_def)
qed

lemma fl_pos:
  assumes "2 powi (- 1022) \<le> x"
  shows "0 < fl x"
proof -
  have x: "0 < x" using assms by (smt (verit) zero_less_power_int)
  with assms have "\<bar>fl x - x\<bar> \<le> x / 2 ^ 53" using fl_error [of x] by simp
  moreover have "x / 2 ^ 53 < x" using x by (simp add: field_simps)
  ultimately show ?thesis by linarith
qed

subsection \<open>The 28 angles and the registered class\<close>

lemma two_pi64: "2 * pi64 = real_of_int 884279719003555 / 2 ^ 47"
  by (simp add: pi64_def)

lemma fl_two_pi64: "fl (2 * pi64 - 0) = 2 * pi64"
proof -
  have "fl (real_of_int 884279719003555 / 2 ^ 47) = real_of_int 884279719003555 / 2 ^ 47"
    by (rule fl_dyadic) simp_all
  then show ?thesis by (simp add: two_pi64)
qed

lemma step28: "fl (2 * pi64 / 28) = 2 * pi64 / 28"
proof -
  have eq: "2 * pi64 / 28 = real_of_int 126325674143365 / 2 ^ 49"
    by (simp add: pi64_def)
  show ?thesis unfolding eq by (rule fl_dyadic) simp_all
qed

lemma angle28:
  assumes "k < 28"
  shows "fl (real k * (2 * pi64 / 28)) = real k * (2 * pi64 / 28)"
proof -
  have eq: "real k * (2 * pi64 / 28) = real_of_int (int k * 126325674143365) / 2 ^ 49"
    by (simp add: pi64_def)
  have "int k * 126325674143365 \<le> 27 * 126325674143365" using assms by simp
  then have "\<bar>int k * 126325674143365\<bar> \<le> 2 ^ 53" by simp
  then have "fl (real_of_int (int k * 126325674143365) / 2 ^ 49) =
      real_of_int (int k * 126325674143365) / 2 ^ 49"
    by (rule fl_dyadic) simp
  then show ?thesis by (simp only: eq)
qed

lemma pi64_pos: "0 < pi64"
  by (simp add: pi64_def)

lemma linspace28: "linspace 0 (2 * pi64) 28 = Inr theta28"
proof -
  define d where "d = 2 * pi64"
  have d: "fl (d - 0) = d" unfolding d_def by (rule fl_two_pi64)
  have s: "fl (d / real_of_int 28) = d / 28" unfolding d_def using step28 by simp
  have nz: "d / 28 \<noteq> 0" unfolding d_def using pi64_pos by simp
  have a: "fl (fl (real k * (d / 28)) + 0) = real k * (d / 28)" if "k < 28" for k
    unfolding d_def by (simp only: add_0_right fl_idem angle28 [OF that])
  have "map (\<lambda>k. fl (fl (real k * (d / 28)) + 0)) [0..<28] = map (\<lambda>k. real k * (d / 28)) [0..<28]"
    by (intro map_cong) (simp_all only: a atLeastLessThan_iff set_upt refl)
  then have "linspace 0 d 28 = Inr (map (\<lambda>k. real k * (d / 28)) [0..<28])"
    using nz unfolding linspace_def Let_def d s by simp
  then show ?thesis unfolding d_def theta28_def .
qed

lemma length_theta28: "length theta28 = 28"
  by (simp add: theta28_def)

lemma hd_theta28: "hd theta28 = 0"
  by (simp add: theta28_def hd_map upt_rec)

lemma last_theta28: "last theta28 = 27 * (2 * pi64 / 28)"
  by (simp add: theta28_def last_map)

lemma radar_factory28:
  "radar_factory 28 (str ''polygon'') w =
     (Inr theta28, w @ [Register_projection (str ''radar'') class28])"
  by (simp add: radar_factory_def linspace28 class28_def)

lemma projections_snoc_register:
  "projections (w @ [Register_projection name cls]) name = Some cls"
  by (simp add: projections_def register_def)

lemma RadarAxes_init28: "RadarAxes_init class28 = Inr axes28"
  by (simp add: RadarAxes_init_def gen_axes_spines_def gen_axes_patch_def class28_def
      axes28_def str_def unit_regular_polygon_def RegularPolygon_init_def)

lemma subplots28:
  "subplots figsize (str ''radar'') (w @ [Register_projection (str ''radar'') class28]) =
     (Inr axes28, w @ [Register_projection (str ''radar'') class28, Figure figsize,
                        Add_subplot axes28])"
  by (simp add: subplots_def projections_snoc_register RadarAxes_init28)

subsection \<open>Indexing, closing, plotting one series, and the array reductions\<close>

lemma getitem_first: "getitem xs 0 = (if xs = [] then Inl IndexError else Inr (hd xs))"
  by (cases xs) (simp_all add: getitem_def)

lemma getitem_last: "getitem xs (- 1) = (if xs = [] then Inl IndexError else Inr (last xs))"
proof (cases xs rule: rev_cases)
  case Nil
  then show ?thesis by (simp add: getitem_def)
next
  case (snoc ys y)
  have "nat (int (length ys)) = length ys" by simp
  with snoc show ?thesis by (simp add: getitem_def nth_append)
qed

lemma close_line_eq:
  "close_line line =
     (if xdata line = [] then Inl IndexError
      else if float_ne (hd (xdata line)) (last (xdata line)) then
        (if ydata line = [] then Inl IndexError
         else Inr (line\<lparr>xdata := xdata line @ [hd (xdata line)],
                        ydata := ydata line @ [hd (ydata line)]\<rparr>))
      else Inr line)"
  by (simp add: close_line_def getitem_first getitem_last)


lemma plot_row:
  "RadarAxes_plot [(map Num theta28, row)] (Some c) =
     (if length row = 28 then Inr [series_line c row] else Inl ValueError)"
proof (cases "length row = 28")
  case True
  then have row: "row \<noteq> []" by auto
  have th: "theta28 \<noteq> []" using length_theta28 by auto
  have "(0::real) < 27 * (2 * pi64 / 28)" using pi64_pos by simp
  then have ne: "float_ne (Num (hd theta28)) (Num (last theta28))"
    by (simp add: float_ne_def hd_theta28 last_theta28)
  show ?thesis
    using True row th ne
    by (simp add: RadarAxes_plot_def Axes_plot_def close_line_eq length_theta28
        series_line_def hd_map last_map)
next
  case False
  then show ?thesis
    by (simp add: RadarAxes_plot_def Axes_plot_def length_theta28)
qed

lemma plot_series_ok:
  "\<forall>row \<in> set rows. length row = 28 \<Longrightarrow> ind + length rows \<le> length colors \<Longrightarrow>
   plot_series theta28 colors ind rows w =
     (None, w @ map Add_line (map2 series_line (drop ind colors) rows))"
proof (induction rows arbitrary: ind w)
  case Nil
  then show ?case by simp
next
  case (Cons row rows)
  from Cons.prems(2) have lt: "ind < length colors" by simp
  then have get: "getitem colors (int ind) = Inr (colors ! ind)"
    by (simp add: getitem_def)
  from lt have dr: "drop ind colors = colors ! ind # drop (Suc ind) colors"
    by (simp add: Cons_nth_drop_Suc)
  from Cons.prems have ih: "plot_series theta28 colors (Suc ind) rows w' =
     (None, w' @ map Add_line (map2 series_line (drop (Suc ind) colors) rows))" for w'
    by (intro Cons.IH) simp_all
  from Cons.prems(1) have "length row = 28" by simp
  then show ?case by (simp add: get plot_row ih dr)
qed

lemma plot_series_lines:
  "plot_series theta28 colors ind rows w = (e, w') \<Longrightarrow>
   \<exists>ls. w' = w @ map Add_line ls \<and> (\<forall>l \<in> set ls. xdata l = map Num (theta28 @ [hd theta28]))"
proof (induction rows arbitrary: ind w)
  case Nil
  then show ?case by simp
next
  case (Cons row rows)
  show ?case
  proof (cases "getitem colors (int ind)")
    case (Inl err)
    with Cons.prems show ?thesis by simp
  next
    case (Inr c)
    show ?thesis
    proof (cases "length row = 28")
      case False
      with Inr Cons.prems show ?thesis by (simp add: plot_row)
    next
      case True
      with Inr Cons.prems
      have "plot_series theta28 colors (Suc ind) rows (w @ [Add_line (series_line c row)]) = (e, w')"
        by (simp add: plot_row)
      from Cons.IH [OF this] obtain ls where
        ls: "w' = (w @ [Add_line (series_line c row)]) @ map Add_line ls"
          "\<forall>l \<in> set ls. xdata l = map Num (theta28 @ [hd theta28])"
        by blast
      have "w' = w @ map Add_line (series_line c row # ls)" using ls(1) by simp
      moreover have "\<forall>l \<in> set (series_line c row # ls). xdata l = map Num (theta28 @ [hd theta28])"
        using ls(2) by (simp add: series_line_def)
      ultimately show ?thesis by blast
    qed
  qed
qed

lemma plot_series_no_IndexError:
  "ind + length rows \<le> length colors \<Longrightarrow>
   fst (plot_series theta28 colors ind rows w) \<noteq> Some IndexError"
proof (induction rows arbitrary: ind w)
  case Nil
  then show ?case by simp
next
  case (Cons row rows)
  from Cons.prems have "ind < length colors" by simp
  then have get: "getitem colors (int ind) = Inr (colors ! ind)"
    by (simp add: getitem_def)
  from Cons.prems have "Suc ind + length rows \<le> length colors" by simp
  from Cons.IH [OF this] show ?case
    by (simp add: get plot_row)
qed

lemma plot_series_third:
  assumes "length r0 = 28" and "length r1 = 28"
  shows "plot_series theta28 [str ''b'', str ''r''] 0 (r0 # r1 # r2 # rest) w =
     (Some IndexError,
      w @ [Add_line (series_line (str ''b'') r0), Add_line (series_line (str ''r'') r1)])"
  using assms by (simp add: plot_row getitem_def)

lemma put_lines: "foldl put_line acc (map Add_line ls) = acc @ ls"
  by (induction ls arbitrary: acc) (simp_all add: put_line_def)

lemma axes_lines_fresh:
  "axes_lines (w @ [Add_subplot ax, Subplots_adjust a b c d, Set_rgrids radii]
      @ map Add_line ls @ [Set_thetagrids angles labels]) = ls"
  by (simp add: axes_lines_def put_lines put_line_def)

lemma reduce_member:
  assumes "\<And>a b. f a b = a \<or> f a b = b" and "xs \<noteq> []"
  shows "\<exists>m. reduce f xs = Inr m \<and> m \<in> set xs"
proof -
  have "foldl f x rest \<in> set (x # rest)" for x rest
  proof (induction rest arbitrary: x)
    case Nil
    then show ?case by simp
  next
    case (Cons y ys)
    from assms(1) [of x y] Cons [of "f x y"] show ?case by auto
  qed
  with assms(2) show ?thesis by (cases xs) (simp_all add: reduce_def)
qed

lemma np_min_member:
  assumes "\<not> rejected data" and "\<not> empty_array data"
  shows "\<exists>mn. np_min data = Inr mn \<and> mn \<in> set (elements data)"
proof (cases data)
  case (Int_array rows)
  with assms(2) have ne: "concat rows \<noteq> []"
    by (simp add: empty_array_def elements_def del: concat_eq_Nil_conv)
  have "\<exists>m. reduce int_min (concat rows) = Inr m \<and> m \<in> set (concat rows)"
    by (rule reduce_member [OF _ ne]) (simp add: int_min_def)
  then obtain m where "reduce int_min (concat rows) = Inr m" "m \<in> set (concat rows)" by blast
  with assms(1) Int_array show ?thesis
    by (simp add: np_min_def elements_def del: set_concat)
next
  case (Float_array rows)
  with assms(2) have ne: "concat rows \<noteq> []"
    by (simp add: empty_array_def elements_def del: concat_eq_Nil_conv)
  have "\<exists>m. reduce float_min (concat rows) = Inr m \<and> m \<in> set (concat rows)"
    by (rule reduce_member [OF _ ne]) (simp add: float_min_def)
  then obtain m where "reduce float_min (concat rows) = Inr m" "m \<in> set (concat rows)" by blast
  with assms(1) Float_array show ?thesis
    by (simp add: np_min_def elements_def del: set_concat)
qed

lemma np_max_member:
  assumes "\<not> rejected data" and "\<not> empty_array data"
  shows "\<exists>mx. np_max data = Inr mx \<and> mx \<in> set (elements data)"
proof (cases data)
  case (Int_array rows)
  with assms(2) have ne: "concat rows \<noteq> []"
    by (simp add: empty_array_def elements_def del: concat_eq_Nil_conv)
  have "\<exists>m. reduce int_max (concat rows) = Inr m \<and> m \<in> set (concat rows)"
    by (rule reduce_member [OF _ ne]) (simp add: int_max_def)
  then obtain m where "reduce int_max (concat rows) = Inr m" "m \<in> set (concat rows)" by blast
  with assms(1) Int_array show ?thesis
    by (simp add: np_max_def elements_def del: set_concat)
next
  case (Float_array rows)
  with assms(2) have ne: "concat rows \<noteq> []"
    by (simp add: empty_array_def elements_def del: concat_eq_Nil_conv)
  have "\<exists>m. reduce float_max (concat rows) = Inr m \<and> m \<in> set (concat rows)"
    by (rule reduce_member [OF _ ne]) (simp add: float_max_def)
  then obtain m where "reduce float_max (concat rows) = Inr m" "m \<in> set (concat rows)" by blast
  with assms(1) Float_array show ?thesis
    by (simp add: np_max_def elements_def del: set_concat)
qed

lemma np_min_empty: "rejected data \<or> empty_array data \<Longrightarrow> np_min data = Inl ValueError"
  by (cases data)
    (auto simp: np_min_def empty_array_def elements_def reduce_def simp del: concat_eq_Nil_conv)

lemma rgrid_levels_eq:
  "rgrid_levels data =
     (if rejected data \<or> empty_array data then Inl ValueError else Inr (levels data))"
proof (cases "rejected data \<or> empty_array data")
  case True
  then show ?thesis by (simp add: rgrid_levels_def np_min_empty)
next
  case False
  then obtain mn mx where "np_min data = Inr mn" "np_max data = Inr mx"
    using np_min_member [of data] np_max_member [of data] by blast
  with False show ?thesis by (simp add: levels_def rgrid_levels_def)
qed

subsection \<open>Readings of a log, and the shape of every run of \<open>draw\<close>\<close>

lemma legends_append: "legends (u @ v) = legends u @ legends v"
  by (induction u rule: legends.induct) simp_all

lemma legends_lines: "legends (map Add_line ls) = []"
  by (induction ls) simp_all

lemma legends_lines_comp: "legends (map (Add_line \<circ> f) xs) = []"
  by (induction xs) simp_all

lemma legend_arguments_append: "legend_arguments (u @ v) = legend_arguments u @ legend_arguments v"
  by (induction u rule: legend_arguments.induct) simp_all

lemma legend_arguments_lines: "legend_arguments (map Add_line ls) = []"
  by (induction ls) simp_all

lemma legend_arguments_lines_comp: "legend_arguments (map (Add_line \<circ> f) xs) = []"
  by (induction xs) simp_all





lemma rows28_accepted:
  assumes "\<forall>row \<in> set (series data). length row = 28"
  shows "\<not> rejected data"
proof -
  have r: "\<not> ragged rows" if "\<forall>row \<in> set rows. length row = 28" for rows :: "'a list list"
    using that by (cases rows) (simp_all add: ragged_def list_ex_iff)
  show ?thesis
  proof (cases data)
    case (Int_array rows)
    with assms have "\<forall>row \<in> set rows. length row = 28" by (simp add: series_def)
    with Int_array show ?thesis by (simp add: rejected_def r)
  next
    case (Float_array rows)
    with assms have "\<forall>row \<in> set rows. length row = 28" by (simp add: series_def)
    with Float_array show ?thesis by (simp add: rejected_def r)
  qed
qed

lemma rows28_not_empty:
  assumes "\<forall>row \<in> set (series data). length row = 28" and "series data \<noteq> []"
  shows "\<not> empty_array data"
proof -
  have c: "concat rows \<noteq> []" if "\<forall>row \<in> set rows. length row = 28" "rows \<noteq> []"
    for rows :: "'a list list"
  proof (cases rows)
    case Nil
    with that(2) show ?thesis by simp
  next
    case (Cons r rs)
    with that(1) have "length r = 28" by simp
    then have "r \<noteq> []" by auto
    with Cons show ?thesis by simp
  qed
  show ?thesis
  proof (cases data)
    case (Int_array rows)
    with assms have "\<forall>row \<in> set rows. length row = 28" "rows \<noteq> []" by (simp_all add: series_def)
    from c [OF this] Int_array show ?thesis
      by (simp add: empty_array_def elements_def del: concat_eq_Nil_conv)
  next
    case (Float_array rows)
    with assms have "\<forall>row \<in> set rows. length row = 28" "rows \<noteq> []" by (simp_all add: series_def)
    from c [OF this] Float_array show ?thesis
      by (simp add: empty_array_def elements_def del: concat_eq_Nil_conv)
  qed
qed

lemma plot_series_None:
  "plot_series theta28 colors ind rows w = (None, w') \<Longrightarrow> ind \<le> length colors \<Longrightarrow>
   (\<forall>row \<in> set rows. length row = 28) \<and> ind + length rows \<le> length colors"
proof (induction rows arbitrary: ind w)
  case Nil
  then show ?case by simp
next
  case (Cons row rows)
  show ?case
  proof (cases "getitem colors (int ind)")
    case (Inl err)
    with Cons.prems show ?thesis by simp
  next
    case (Inr c)
    then have lt: "Suc ind \<le> length colors"
      by (auto simp: getitem_def split: if_splits)
    show ?thesis
    proof (cases "length row = 28")
      case False
      with Inr Cons.prems show ?thesis by (simp add: plot_row)
    next
      case True
      with Inr Cons.prems
      have "plot_series theta28 colors (Suc ind) rows (w @ [Add_line (series_line c row)]) = (None, w')"
        by (simp add: plot_row)
      from Cons.IH [OF this lt] True show ?thesis by simp
    qed
  qed
qed

lemma draw_eq:
  "draw lib filename data label title w =
     (if rejected data \<or> empty_array data then
        (Some ValueError,
         w @ [Register_projection (str ''radar'') class28, Figure (12, 12), Add_subplot axes28,
              Subplots_adjust 1 1 (fl 0.85) (fl 0.05)])
      else
        (case set_rgrids_raises lib (levels data) of
           Some e \<Rightarrow>
             (Some e,
              w @ [Register_projection (str ''radar'') class28, Figure (12, 12),
                   Add_subplot axes28, Subplots_adjust 1 1 (fl 0.85) (fl 0.05)])
         | None \<Rightarrow>
             (case plot_series theta28 [str ''b'', str ''r''] 0 (series data)
                     (w @ [Register_projection (str ''radar'') class28, Figure (12, 12),
                           Add_subplot axes28, Subplots_adjust 1 1 (fl 0.85) (fl 0.05),
                           Set_rgrids (levels data)]) of
                (Some e, w5) \<Rightarrow> (Some e, w5)
              | (None, w5) \<Rightarrow>
                  (case set_varlabels axes28 label w5 of
                     (Some e, w6) \<Rightarrow> (Some e, w6)
                   | (None, w6) \<Rightarrow>
                       savefig lib filename
                         (legend legend_labels (- fl 0.13, fl 0.99) (fl 0.1) (str ''medium'') w6
                          @ [Fig_text 0.5 (fl 0.965) title])))))"
proof (cases "rejected data")
  case True
  then show ?thesis
    by (simp add: draw_def radar_factory28 subplots28 np_average_def Let_def)
next
  case False
  then show ?thesis
    by (simp add: draw_def radar_factory28 subplots28 np_average_def rgrid_levels_eq
        set_rgrids_def Let_def split: option.splits)
qed

lemma draw_reaches_save:
  assumes "series data \<noteq> []" and "length (series data) \<le> 2"
    and "\<forall>row \<in> set (series data). length row = 28"
    and "label = [] \<or> length label = 28"
    and "set_rgrids_raises lib (levels data) = None"
  shows "draw lib filename data label title w =
     savefig lib filename
       (w @ [Register_projection (str ''radar'') class28, Figure (12, 12), Add_subplot axes28,
             Subplots_adjust 1 1 (fl 0.85) (fl 0.05),
             Set_rgrids (levels data)]
          @ map Add_line (map2 series_line [str ''b'', str ''r''] (series data))
          @ [Set_thetagrids (map degrees theta28) label,
             Legend (map2 series_line [str ''b'', str ''r''] (series data)) legend_labels
               (- fl 0.13, fl 0.99) (fl 0.1) (str ''medium''),
             Fig_text 0.5 (fl 0.965) title])"
proof -
  have acc: "\<not> rejected data" using assms(3) by (rule rows28_accepted)
  have ne: "\<not> empty_array data" using assms(3,1) by (rule rows28_not_empty)
  have "0 + length (series data) \<le> length [str ''b'', str ''r'']" using assms(2) by simp
  from plot_series_ok [OF assms(3) this]
  have ps: "plot_series theta28 [str ''b'', str ''r''] 0 (series data) w' =
      (None, w' @ map Add_line (map2 series_line [str ''b'', str ''r''] (series data)))" for w'
    by simp
  have ax: "cls_theta (ax_class axes28) = theta28"
    by (simp add: axes28_def class28_def)
  let ?ls = "map2 series_line [str ''b'', str ''r''] (series data)"
  let ?w4 = "w @ [Register_projection (str ''radar'') class28, Figure (12, 12),
        Add_subplot axes28, Subplots_adjust 1 1 (fl 0.85) (fl 0.05), Set_rgrids (levels data)]"
  let ?w6 = "?w4 @ map Add_line ?ls @ [Set_thetagrids (map degrees theta28) label]"
  have al: "axes_lines ?w6 = ?ls"
    using axes_lines_fresh [of "w @ [Register_projection (str ''radar'') class28, Figure (12, 12)]"
        axes28 1 1 "fl 0.85" "fl 0.05" "levels data" ?ls "map degrees theta28" label]
    by simp
  have lg: "legend legend_labels (- fl 0.13, fl 0.99) (fl 0.1) (str ''medium'') ?w6 =
      ?w6 @ [Legend ?ls legend_labels (- fl 0.13, fl 0.99) (fl 0.1) (str ''medium'')]"
    by (simp only: legend_def al)
  have sv: "set_varlabels axes28 label w' = (None, w' @ [Set_thetagrids (map degrees theta28) label])"
    for w'
    using assms(4) by (auto simp: set_varlabels_def ax length_theta28)
  have "draw lib filename data label title w =
      savefig lib filename
        (legend legend_labels (- fl 0.13, fl 0.99) (fl 0.1) (str ''medium'') ?w6
         @ [Fig_text 0.5 (fl 0.965) title])"
    using acc ne assms(5) by (simp add: draw_eq ps sv)
  also have "\<dots> = savefig lib filename
        ((?w6 @ [Legend ?ls legend_labels (- fl 0.13, fl 0.99) (fl 0.1) (str ''medium'')])
         @ [Fig_text 0.5 (fl 0.965) title])"
    by (simp only: lg)
  finally show ?thesis by simp
qed

lemma no_series_empty: "series data = [] \<Longrightarrow> empty_array data"
  by (cases data) (simp_all add: series_def empty_array_def elements_def)

lemma draw_cases:
  obtains
    (bad_data) "rejected data \<or> empty_array data"
      "draw lib filename data label title w =
         (Some ValueError,
          w @ [Register_projection (str ''radar'') class28, Figure (12, 12), Add_subplot axes28,
               Subplots_adjust 1 1 (fl 0.85) (fl 0.05)])"
  | (bad_levels) e where "\<not> rejected data" "\<not> empty_array data"
      "set_rgrids_raises lib (levels data) = Some e"
      "draw lib filename data label title w =
         (Some e,
          w @ [Register_projection (str ''radar'') class28, Figure (12, 12), Add_subplot axes28,
               Subplots_adjust 1 1 (fl 0.85) (fl 0.05)])"
  | (stopped) e ls where "\<not> rejected data" "\<not> empty_array data"
      "set_rgrids_raises lib (levels data) = None"
      "\<forall>l \<in> set ls. xdata l = map Num (theta28 @ [hd theta28])"
      "draw lib filename data label title w =
         (Some e,
          w @ [Register_projection (str ''radar'') class28, Figure (12, 12), Add_subplot axes28,
               Subplots_adjust 1 1 (fl 0.85) (fl 0.05),
               Set_rgrids (levels data)]
            @ map Add_line ls)"
  | (reached) "series data \<noteq> []" "length (series data) \<le> 2"
      "\<forall>row \<in> set (series data). length row = 28"
      "label = [] \<or> length label = 28"
      "set_rgrids_raises lib (levels data) = None"
      "draw lib filename data label title w =
         savefig lib filename
           (w @ [Register_projection (str ''radar'') class28, Figure (12, 12), Add_subplot axes28,
                 Subplots_adjust 1 1 (fl 0.85) (fl 0.05),
                 Set_rgrids (levels data)]
              @ map Add_line (map2 series_line [str ''b'', str ''r''] (series data))
              @ [Set_thetagrids (map degrees theta28) label,
                 Legend (map2 series_line [str ''b'', str ''r''] (series data)) legend_labels
                   (- fl 0.13, fl 0.99) (fl 0.1) (str ''medium''),
                 Fig_text 0.5 (fl 0.965) title])"
proof (cases "rejected data \<or> empty_array data")
  case True
  then show ?thesis by (intro bad_data) (simp_all add: draw_eq)
next
  case ok: False
  show ?thesis
  proof (cases "set_rgrids_raises lib (levels data)")
    case (Some e)
    with ok show ?thesis by (intro bad_levels [of e]) (simp_all add: draw_eq)
  next
    case None
    let ?w4 = "w @ [Register_projection (str ''radar'') class28, Figure (12, 12),
                    Add_subplot axes28, Subplots_adjust 1 1 (fl 0.85) (fl 0.05),
                    Set_rgrids (levels data)]"
    obtain e w5 where ps: "plot_series theta28 [str ''b'', str ''r''] 0 (series data) ?w4 = (e, w5)"
      by (cases "plot_series theta28 [str ''b'', str ''r''] 0 (series data) ?w4") blast
    from plot_series_lines [OF ps] obtain ls where
      ls: "w5 = ?w4 @ map Add_line ls"
        "\<forall>l \<in> set ls. xdata l = map Num (theta28 @ [hd theta28])"
      by blast
    have ax: "cls_theta (ax_class axes28) = theta28"
      by (simp add: axes28_def class28_def)
    show ?thesis
    proof (cases e)
      case (Some err)
      with ok None ps ls(1)
      have "draw lib filename data label title w = (Some err, ?w4 @ map Add_line ls)"
        by (simp add: draw_eq)
      with ok None ls(2) show ?thesis by (intro stopped [of ls err]) simp_all
    next
      case no_err: None
      show ?thesis
      proof (cases "label \<noteq> [] \<and> length label \<noteq> 28")
        case True
        with ok None ps ls(1) no_err
        have "draw lib filename data label title w = (Some ValueError, ?w4 @ map Add_line ls)"
          by (simp add: draw_eq set_varlabels_def ax length_theta28)
        with ok None ls(2) show ?thesis by (intro stopped [of ls ValueError]) simp_all
      next
        case lab: False
        from ps no_err have "plot_series theta28 [str ''b'', str ''r''] 0 (series data) ?w4 = (None, w5)"
          by simp
        from plot_series_None [OF this]
        have rows: "\<forall>row \<in> set (series data). length row = 28"
          and len: "length (series data) \<le> 2"
          by simp_all
        have ne: "series data \<noteq> []" using ok no_series_empty by blast
        from lab have l: "label = [] \<or> length label = 28" by blast
        show ?thesis
          by (rule reached [OF ne len rows l None draw_reaches_save [OF ne len rows l None]])
      qed
    qed
  qed
qed

subsection \<open>The angles for any number of axes\<close>

lemma linspace_2pi:
  assumes "1 \<le> num" and "num \<le> 2 ^ 50"
  shows "linspace 0 (2 * pi64) num =
           Inr (map (\<lambda>k. fl (real k * fl (2 * pi64 / real_of_int num))) [0..<nat num])
         \<and> 2 powi (- 48) \<le> 2 * pi64 / real_of_int num"
proof -
  define d where "d = 2 * pi64"
  define n where "n = real_of_int num"
  have n: "1 \<le> n" "n \<le> 2 ^ 50" using assms by (simp_all add: n_def)
  have d: "6 < d" "d < 7" by (simp_all add: d_def pi64_def)
  have fd: "fl (d - 0) = d" unfolding d_def by (rule fl_two_pi64)
  have "1 / 2 ^ 48 \<le> 6 / (2 ^ 50 :: real)" by simp
  also have "\<dots> \<le> 6 / n" using n by (intro divide_left_mono) simp_all
  also have "\<dots> \<le> d / n" using n d by (intro divide_right_mono) simp_all
  finally have lo: "2 powi (- 48) \<le> d / n" by (simp add: power_int_minus field_simps)
  have "(2::real) powi (- 1022) \<le> 2 powi (- 48)" by (intro power_int_increasing) simp_all
  with lo have "2 powi (- 1022) \<le> d / n" by linarith
  then have "0 < fl (d / n)" by (rule fl_pos)
  then have nz: "fl (d / n) \<noteq> 0" by simp
  have "linspace 0 d num = Inr (map (\<lambda>k. fl (real k * fl (d / n))) [0..<nat num])"
    using assms(1) nz unfolding linspace_def Let_def fd n_def [symmetric]
    by (simp add: fl_idem)
  with lo show ?thesis unfolding d_def n_def by simp
qed

lemma angle_bounds:
  assumes n: "1 \<le> n" "n \<le> 2 ^ 50" and k: "real k \<le> n - 1"
    and d: "0 < d" and lo: "2 powi (- 48) \<le> d / n"
  shows "\<bar>fl (real k * fl (d / n)) - real k * d / n\<bar> \<le> 3 / 2 ^ 53 * (real k * d / n)"
    and "fl (real k * fl (d / n)) < d"
proof -
  define a where "a = d / n"
  define s where "s = fl a"
  define u :: real where "u = 1 / 2 ^ 53"
  have a: "0 < a" using d n by (simp add: a_def)
  have u: "0 < u" "u \<le> 1" by (simp_all add: u_def)
  have lo': "2 powi (- 48) \<le> a" using lo by (simp add: a_def)
  have "(2::real) powi (- 1022) \<le> 2 powi (- 48)" by (intro power_int_increasing) simp_all
  with lo' have "2 powi (- 1022) \<le> \<bar>a\<bar>" using a by linarith
  from fl_error [OF this] have sa: "\<bar>s - a\<bar> \<le> a * u" using a by (simp add: s_def u_def)
  have main: "\<bar>fl (real k * s) - real k * a\<bar> \<le> 3 * u * (real k * a)"
  proof (cases "k = 0")
    case True
    then show ?thesis by (simp add: fl_def)
  next
    case False
    then have k1: "1 \<le> real k" by simp
    have s_lo: "a / 2 \<le> s"
    proof -
      have "a * u \<le> a / 2" using a by (simp add: u_def field_simps)
      with sa show ?thesis by linarith
    qed
    have s_hi: "s \<le> 2 * a"
    proof -
      have "a * u \<le> a" using a u by (simp add: mult_left_le)
      with sa show ?thesis by linarith
    qed
    have "(2::real) powi (- 1022) \<le> 2 powi (- 49)" by (intro power_int_increasing) simp_all
    moreover have "(2::real) powi (- 49) = 2 powi (- 48) / 2" by (simp add: power_int_minus)
    ultimately have "2 powi (- 1022) \<le> a / 2" using lo' by linarith
    also have "a / 2 \<le> s" by (rule s_lo)
    also have "s \<le> real k * s" using k1 s_lo a by (simp add: mult_le_cancel_right1)
    finally have "2 powi (- 1022) \<le> \<bar>real k * s\<bar>" by linarith
    from fl_error [OF this] have e1: "\<bar>fl (real k * s) - real k * s\<bar> \<le> real k * s * u"
      using k1 s_lo a by (simp add: u_def abs_mult)
    have "real k * s * u \<le> real k * (2 * a) * u"
      using s_hi k1 u by (intro mult_right_mono mult_left_mono) simp_all
    with e1 have e1': "\<bar>fl (real k * s) - real k * s\<bar> \<le> 2 * u * (real k * a)" by (simp add: ac_simps)
    have "\<bar>real k * s - real k * a\<bar> = real k * \<bar>s - a\<bar>"
      by (simp add: abs_mult flip: right_diff_distrib)
    also have "\<dots> \<le> real k * (a * u)" using sa by (intro mult_left_mono) simp_all
    finally have e2: "\<bar>real k * s - real k * a\<bar> \<le> u * (real k * a)" by (simp add: ac_simps)
    from e1' e2 show ?thesis by linarith
  qed
  then show "\<bar>fl (real k * fl (d / n)) - real k * d / n\<bar> \<le> 3 / 2 ^ 53 * (real k * d / n)"
    by (simp add: s_def a_def u_def)
  have "real k * (3 * u) \<le> 2 ^ 50 * (3 * u)"
    using k n u by (intro mult_right_mono) simp_all
  also have "\<dots> < 1" by (simp add: u_def)
  finally have "real k * (1 + 3 * u) < n" using k by (simp add: algebra_simps)
  then have "a * (real k * (1 + 3 * u)) < a * n" using a by (simp only: mult_less_cancel_left_pos)
  then have "real k * a + 3 * u * (real k * a) < d" using n by (simp add: a_def algebra_simps)
  with main show "fl (real k * fl (d / n)) < d" unfolding s_def a_def by linarith
qed

subsection \<open>Numbers that need no rounding, and small facts for the statements\<close>



lemma snd_zip_take: "map snd (zip xs ys) = take (length xs) ys"
proof (induction xs arbitrary: ys)
  case Nil
  then show ?case by simp
next
  case (Cons x xs)
  then show ?case by (cases ys) simp_all
qed






lemma draw_permissive:
  assumes "series data \<noteq> []" and "length (series data) \<le> 2"
    and "\<forall>row \<in> set (series data). length row = 28"
    and "label = [] \<or> length label = 28"
  shows "draw permissive filename data label title w =
     (None,
      w @ [Register_projection (str ''radar'') class28, Figure (12, 12), Add_subplot axes28,
           Subplots_adjust 1 1 (fl 0.85) (fl 0.05),
           Set_rgrids (levels data)]
        @ map Add_line (map2 series_line [str ''b'', str ''r''] (series data))
        @ [Set_thetagrids (map degrees theta28) label,
           Legend (map2 series_line [str ''b'', str ''r''] (series data)) legend_labels
             (- fl 0.13, fl 0.99) (fl 0.1) (str ''medium''),
           Fig_text 0.5 (fl 0.965) title,
           Savefig filename])"
proof -
  have p: "set_rgrids_raises permissive (levels data) = None" by (simp add: permissive_def)
  show ?thesis
    unfolding draw_reaches_save [OF assms p] savefig_def
    by (simp add: permissive_def)
qed

lemma draw_legends:
  "legends (snd (draw lib filename data label title w)) = legends w
   \<or> legends (snd (draw lib filename data label title w)) =
       legends w @ [take (length (series data)) legend_labels]"
proof (cases rule: draw_cases [of data lib filename label title w])
  case bad_data
  then show ?thesis by (simp add: legends_append)
next
  case (bad_levels e)
  then show ?thesis by (simp add: legends_append)
next
  case (stopped e ls)
  then show ?thesis by (simp add: legends_append legends_lines)
next
  case reached
  from reached(2) have "length (map2 series_line [str ''b'', str ''r''] (series data))
      = length (series data)" by simp
  then have "map snd (zip (map2 series_line [str ''b'', str ''r''] (series data)) legend_labels)
      = take (length (series data)) legend_labels"
    by (simp only: snd_zip_take)
  with reached(6) show ?thesis
    by (auto simp: savefig_def legends_append legends_lines_comp split: option.splits)
qed

lemma draw_legends_ok:
  assumes "fst (draw lib filename data label title w) = None"
  shows "legends (snd (draw lib filename data label title w)) =
       legends w @ [take (length (series data)) legend_labels]
     \<and> series data \<noteq> [] \<and> length (series data) \<le> 2"
proof (cases rule: draw_cases [of data lib filename label title w])
  case bad_data
  with assms show ?thesis by simp
next
  case (bad_levels e)
  with assms show ?thesis by simp
next
  case (stopped e ls)
  with assms show ?thesis by simp
next
  case reached
  from reached(2) have "length (map2 series_line [str ''b'', str ''r''] (series data))
      = length (series data)" by simp
  then have "map snd (zip (map2 series_line [str ''b'', str ''r''] (series data)) legend_labels)
      = take (length (series data)) legend_labels"
    by (simp only: snd_zip_take)
  with reached(1,2,6) show ?thesis
    by (auto simp: savefig_def legends_append legends_lines_comp split: option.splits)
qed

lemma draw_legend_arguments:
  "legend_arguments (snd (draw lib filename data label title w)) = legend_arguments w
   \<or> legend_arguments (snd (draw lib filename data label title w)) =
       legend_arguments w @ [legend_labels]"
proof (cases rule: draw_cases [of data lib filename label title w])
  case bad_data
  then show ?thesis by (simp add: legend_arguments_append)
next
  case (bad_levels e)
  then show ?thesis by (simp add: legend_arguments_append)
next
  case (stopped e ls)
  then show ?thesis by (simp add: legend_arguments_append legend_arguments_lines)
next
  case reached
  from reached(6) show ?thesis
    by (auto simp: savefig_def legend_arguments_append legend_arguments_lines_comp
        split: option.splits)
qed

lemma draw_legend_arguments_ok:
  assumes "fst (draw lib filename data label title w) = None"
  shows "legend_arguments (snd (draw lib filename data label title w)) =
       legend_arguments w @ [legend_labels]"
proof (cases rule: draw_cases [of data lib filename label title w])
  case bad_data
  with assms show ?thesis by simp
next
  case (bad_levels e)
  with assms show ?thesis by simp
next
  case (stopped e ls)
  with assms show ?thesis by simp
next
  case reached
  from reached(6) show ?thesis
    by (auto simp: savefig_def legend_arguments_append legend_arguments_lines_comp
        split: option.splits)
qed

section \<open>The claims\<close>




text \<open>
  Claim C2, as far as the code goes. The class that \<open>radar_factory\<close> registers
  carries the \<open>frame\<close> string it was given (the factory itself accepts any frame).
  For the frame \<open>'circle'\<close> the two methods return the circle patch and the library's
  spines. For \<open>'polygon'\<close> and at least one axis they return the regular polygon patch
  and the polygon spine; with no axis both raise ZeroDivisionError, from the library's
  division by the number of vertices. For every other frame string both raise
  ValueError.
\<close>

theorem frame_dispatch:
  "(cls_frame cls = str ''circle'' \<longrightarrow>
      gen_axes_patch cls = Inr (Circle (0.5, 0.5) 0.5) \<and>
      gen_axes_spines cls = Inr Polar_spines)
   \<and> (cls_frame cls = str ''polygon'' \<and> 1 \<le> cls_num_vars cls \<longrightarrow>
      gen_axes_patch cls = Inr (RegularPolygon (0.5, 0.5) (cls_num_vars cls) 0.5 (str ''k'')) \<and>
      gen_axes_spines cls =
        Inr (Spine_dict
          [(str ''polar'',
            \<lparr>spine_type = str ''circle'',
             spine_path = Unit_regular_polygon (cls_num_vars cls),
             spine_transform =
               Composite (Affine (translate 0.5 0.5 (scale 0.5 0.5 Affine2D))) TransAxes\<rparr>)]))
   \<and> (cls_frame cls = str ''polygon'' \<and> cls_num_vars cls = 0 \<longrightarrow>
      gen_axes_patch cls = Inl ZeroDivisionError \<and> gen_axes_spines cls = Inl ZeroDivisionError)
   \<and> (cls_frame cls \<noteq> str ''circle'' \<and> cls_frame cls \<noteq> str ''polygon'' \<longrightarrow>
      gen_axes_patch cls = Inl ValueError \<and> gen_axes_spines cls = Inl ValueError)
   \<and> (0 \<le> num_vars \<longrightarrow>
      (\<exists>theta. projections (snd (radar_factory num_vars frame w)) (str ''radar'') =
         Some \<lparr>cls_num_vars = nat num_vars, cls_frame = frame, cls_theta = theta\<rparr>))"
  by (simp add: gen_axes_patch_def gen_axes_spines_def str_def radar_factory_def linspace_def
      projections_def register_def unit_regular_polygon_def RegularPolygon_init_def Let_def)

text \<open>
  One class for each of the cases, and a factory call with an unknown frame.
\<close>

theorem frame_dispatch_witness:
  "gen_axes_patch \<lparr>cls_num_vars = 5, cls_frame = str ''circle'', cls_theta = []\<rparr>
     = Inr (Circle (0.5, 0.5) 0.5)
   \<and> gen_axes_spines \<lparr>cls_num_vars = 5, cls_frame = str ''circle'', cls_theta = []\<rparr>
     = Inr Polar_spines
   \<and> gen_axes_patch \<lparr>cls_num_vars = 5, cls_frame = str ''polygon'', cls_theta = []\<rparr>
     = Inr (RegularPolygon (0.5, 0.5) 5 0.5 (str ''k''))
   \<and> gen_axes_spines \<lparr>cls_num_vars = 0, cls_frame = str ''polygon'', cls_theta = []\<rparr>
     = Inl ZeroDivisionError
   \<and> gen_axes_patch \<lparr>cls_num_vars = 5, cls_frame = str ''square'', cls_theta = []\<rparr>
     = Inl ValueError
   \<and> gen_axes_spines \<lparr>cls_num_vars = 5, cls_frame = str ''square'', cls_theta = []\<rparr>
     = Inl ValueError
   \<and> (\<exists>theta. projections (snd (radar_factory 5 (str ''square'') [])) (str ''radar'') =
         Some \<lparr>cls_num_vars = 5, cls_frame = str ''square'', cls_theta = theta\<rparr>)"
  using frame_dispatch [of "\<lparr>cls_num_vars = 5, cls_frame = str ''circle'', cls_theta = []\<rparr>"
      5 "str ''square''" "[]"]
    frame_dispatch [of "\<lparr>cls_num_vars = 5, cls_frame = str ''polygon'', cls_theta = []\<rparr>"
      5 "str ''square''" "[]"]
    frame_dispatch [of "\<lparr>cls_num_vars = 0, cls_frame = str ''polygon'', cls_theta = []\<rparr>"
      5 "str ''square''" "[]"]
    frame_dispatch [of "\<lparr>cls_num_vars = 5, cls_frame = str ''square'', cls_theta = []\<rparr>"
      5 "str ''square''" "[]"]
  by (simp add: str_def)

text \<open>
  Against C2 as it is worded: \<open>radar_factory(0, 'polygon')\<close> registers a class with
  the polygon frame, and for it both methods raise ZeroDivisionError instead of
  returning a patch and spines.
\<close>

theorem frame_dispatch_counterexample:
  "projections (snd (radar_factory 0 (str ''polygon'') [])) (str ''radar'') =
     Some \<lparr>cls_num_vars = 0, cls_frame = str ''polygon'', cls_theta = []\<rparr>
   \<and> gen_axes_patch \<lparr>cls_num_vars = 0, cls_frame = str ''polygon'', cls_theta = []\<rparr>
     = Inl ZeroDivisionError
   \<and> gen_axes_spines \<lparr>cls_num_vars = 0, cls_frame = str ''polygon'', cls_theta = []\<rparr>
     = Inl ZeroDivisionError"
  by (simp add: gen_axes_patch_def gen_axes_spines_def str_def radar_factory_def linspace_def
      projections_def register_def unit_regular_polygon_def RegularPolygon_init_def Let_def)

text \<open>
  Claim C3, as far as the code goes. For \<open>1 \<le> num_vars \<le> 2^50\<close> the factory returns
  \<open>num_vars\<close> angles, the first of them 0, the \<open>k\<close>-th the float product of \<open>k\<close> and
  the float quotient \<open>2 * np.pi / num_vars\<close>. That is within \<open>3 / 2^53\<close>, relatively,
  of \<open>k\<close> times the exact quotient, and below \<open>2 * np.pi\<close>, which is therefore not
  among the angles.
\<close>

theorem factory_angles:
  assumes "1 \<le> num_vars" and "num_vars \<le> 2 ^ 50"
  shows "\<exists>theta. fst (radar_factory num_vars frame w) = Inr theta
           \<and> length theta = nat num_vars
           \<and> theta ! 0 = 0
           \<and> (\<forall>k < nat num_vars.
                 theta ! k = fl (real k * fl (2 * pi64 / real_of_int num_vars))
                 \<and> \<bar>theta ! k - real k * (2 * pi64) / real_of_int num_vars\<bar>
                     \<le> 3 / 2 ^ 53 * (real k * (2 * pi64) / real_of_int num_vars)
                 \<and> theta ! k < 2 * pi64)"
proof -
  let ?n = "real_of_int num_vars"
  let ?theta = "map (\<lambda>k. fl (real k * fl (2 * pi64 / ?n))) [0..<nat num_vars]"
  from linspace_2pi [OF assms]
  have lin: "linspace 0 (2 * pi64) num_vars = Inr ?theta"
    and lo: "2 powi (- 48) \<le> 2 * pi64 / ?n"
    by simp_all
  have res: "fst (radar_factory num_vars frame w) = Inr ?theta"
    by (simp add: radar_factory_def lin)
  have n: "1 \<le> ?n" "?n \<le> 2 ^ 50" using assms by simp_all
  have d: "0 < 2 * pi64" using pi64_pos by simp
  have zero: "?theta ! 0 = 0" using assms(1) by (simp add: fl_def)
  have each: "?theta ! k = fl (real k * fl (2 * pi64 / ?n))
      \<and> \<bar>?theta ! k - real k * (2 * pi64) / ?n\<bar> \<le> 3 / 2 ^ 53 * (real k * (2 * pi64) / ?n)
      \<and> ?theta ! k < 2 * pi64" if "k < nat num_vars" for k
  proof -
    from that have k: "real k \<le> ?n - 1" by linarith
    from that have nth: "?theta ! k = fl (real k * fl (2 * pi64 / ?n))" by simp
    from angle_bounds [OF n k d lo] nth show ?thesis by simp
  qed
  from res zero each show ?thesis by (intro exI [of _ ?theta]) simp
qed

text \<open>
  Four axes.
\<close>

theorem factory_angles_witness:
  "\<exists>theta. fst (radar_factory 4 (str ''circle'') []) = Inr theta
     \<and> length theta = 4 \<and> theta ! 0 = 0
     \<and> theta ! 3 = fl (3 * fl (2 * pi64 / 4)) \<and> theta ! 3 < 2 * pi64"
proof -
  have "(1::int) \<le> 4" "(4::int) \<le> 2 ^ 50" by simp_all
  from factory_angles [OF this, of "str ''circle''" "[]"]
  obtain theta where t: "fst (radar_factory 4 (str ''circle'') []) = Inr theta"
    "length theta = nat 4" "theta ! 0 = 0"
    "\<forall>k < nat 4. theta ! k = fl (real k * fl (2 * pi64 / real_of_int 4))
                 \<and> \<bar>theta ! k - real k * (2 * pi64) / real_of_int 4\<bar>
                     \<le> 3 / 2 ^ 53 * (real k * (2 * pi64) / real_of_int 4)
                 \<and> theta ! k < 2 * pi64"
    by blast
  have "(3::nat) < nat 4" by simp
  with t(4) have "theta ! 3 = fl (real 3 * fl (2 * pi64 / real_of_int 4)) \<and> theta ! 3 < 2 * pi64"
    by blast
  with t(1,2,3) show ?thesis by (intro exI [of _ theta]) simp
qed

text \<open>
  Against C3 as it is worded: with 28 axes the angle at index 11 is not the float that
  \<open>11 * 2 * pi / 28\<close> evaluates to (the two differ in the last place).
\<close>

theorem factory_angles_counterexample:
  "fst (radar_factory 28 (str ''polygon'') []) = Inr theta28
   \<and> theta28 ! 11 \<noteq> fl (fl (11 * 2 * pi64) / 28)"
proof -
  have a: "theta28 ! 11 = 5558329662308060 / 2 ^ 51"
    by (simp add: theta28_def pi64_def)
  have x: "11 * 2 * pi64 = 19454153818078210 / 2 ^ 48" by (simp add: pi64_def)
  have "fl (19454153818078210 / 2 ^ 48) =
      real_of_int (rne (19454153818078210 / 2 ^ 48 / 2 powi (6 - 52))) * 2 powi (6 - 52)"
    by (rule fl_binade) simp_all
  also have "\<dots> = 4863538454519552 / 2 ^ 46"
    by (simp add: rne_def power_int_minus)
  finally have f1: "fl (11 * 2 * pi64) = 4863538454519552 / 2 ^ 46" by (simp only: x)
  have "fl (4863538454519552 / 2 ^ 46 / 28) =
      real_of_int (rne (4863538454519552 / 2 ^ 46 / 28 / 2 powi (1 - 52))) * 2 powi (1 - 52)"
    by (rule fl_binade) simp_all
  also have "\<dots> = 5558329662308059 / 2 ^ 51"
    by (simp add: rne_def power_int_minus)
  finally have "fl (fl (11 * 2 * pi64) / 28) = 5558329662308059 / 2 ^ 51" by (simp only: f1)
  with a show ?thesis by (simp add: radar_factory28)
qed






text \<open>
  Claim C6. For the polygon frame and at least one axis the spine's path is the unit
  regular polygon and its transform sends every point \<open>(x, y)\<close> to
  \<open>(x / 2 + 0.5, y / 2 + 0.5)\<close> and then through the axes transform. Before the axes
  transform the distance of a point from \<open>(0.5, 0.5)\<close> is half the distance of its
  original from \<open>(0, 0)\<close> (stated for the squares), so radius 1 about the origin
  becomes radius 0.5 about \<open>(0.5, 0.5)\<close>.
\<close>

theorem polygon_spine_transform:
  assumes "1 \<le> n"
  shows "\<exists>sp. gen_axes_spines \<lparr>cls_num_vars = n, cls_frame = str ''polygon'', cls_theta = th\<rparr>
           = Inr (Spine_dict [(str ''polar'', sp)])
     \<and> spine_path sp = Unit_regular_polygon n
     \<and> (\<forall>ta x y. transform_point ta (spine_transform sp) (x, y) = ta (x / 2 + 0.5, y / 2 + 0.5))
     \<and> (\<forall>x y. (fst (transform_point id (spine_transform sp) (x, y)) - 0.5)\<^sup>2
              + (snd (transform_point id (spine_transform sp) (x, y)) - 0.5)\<^sup>2
              = (x\<^sup>2 + y\<^sup>2) * 0.5\<^sup>2)"
  using assms
  by (simp add: gen_axes_spines_def str_def affine_point_def translate_def scale_def
      Affine2D_def power2_eq_square unit_regular_polygon_def)

text \<open>
  Five axes: the corner \<open>(0, 1)\<close> of the unit polygon goes to \<open>(0.5, 1)\<close>.
\<close>

theorem polygon_spine_transform_witness:
  "\<exists>sp. gen_axes_spines \<lparr>cls_num_vars = 5, cls_frame = str ''polygon'', cls_theta = []\<rparr>
           = Inr (Spine_dict [(str ''polar'', sp)])
     \<and> spine_path sp = Unit_regular_polygon 5
     \<and> transform_point id (spine_transform sp) (0, 1) = (0.5, 1)"
proof -
  have "(1::nat) \<le> 5" by simp
  from polygon_spine_transform [OF this, of "[]"]
  obtain sp where sp:
    "gen_axes_spines \<lparr>cls_num_vars = 5, cls_frame = str ''polygon'', cls_theta = []\<rparr>
       = Inr (Spine_dict [(str ''polar'', sp)])"
    "spine_path sp = Unit_regular_polygon 5"
    "\<forall>ta x y. transform_point ta (spine_transform sp) (x, y) = ta (x / 2 + 0.5, y / 2 + 0.5)"
    by blast
  from sp(3) have "transform_point id (spine_transform sp) (0, 1) = id (0 / 2 + 0.5, 1 / 2 + 0.5)"
    by blast
  then have "transform_point id (spine_transform sp) (0, 1) = (0.5, 1)" by simp
  with sp(1,2) show ?thesis by blast
qed

text \<open>
  Claim C7, as far as the code goes. A non-empty line whose first x value equals
  (\<open>==\<close>) its last is left unchanged by \<open>_close_line\<close>; and for a non-empty line
  whose first x value is not NaN, calling \<open>_close_line\<close> twice gives what calling it
  once gives.
\<close>

theorem close_line_idempotent:
  assumes "xdata line \<noteq> []"
  shows "(\<not> float_ne (hd (xdata line)) (last (xdata line)) \<longrightarrow> close_line line = Inr line)
       \<and> (hd (xdata line) \<noteq> NaN \<longrightarrow> close_line_twice line = close_line line)"
  using assms by (auto simp: close_line_twice_def close_line_eq float_ne_def)

text \<open>
  A closed line of three points stays; an open line of two points is closed once.
\<close>

theorem close_line_idempotent_witness:
  "close_line \<lparr>xdata = [Num 1, Num 2, Num 1], ydata = [Num 3, Num 4, Num 3], line_color = None\<rparr>
     = Inr \<lparr>xdata = [Num 1, Num 2, Num 1], ydata = [Num 3, Num 4, Num 3], line_color = None\<rparr>
   \<and> close_line_twice \<lparr>xdata = [Num 1, Num 2], ydata = [Num 3, Num 4], line_color = None\<rparr>
     = close_line \<lparr>xdata = [Num 1, Num 2], ydata = [Num 3, Num 4], line_color = None\<rparr>"
  using close_line_idempotent [of "\<lparr>xdata = [Num 1, Num 2, Num 1], ydata = [Num 3, Num 4, Num 3], line_color = None\<rparr>"]
    close_line_idempotent [of "\<lparr>xdata = [Num 1, Num 2], ydata = [Num 3, Num 4], line_color = None\<rparr>"]
  by (simp add: float_ne_def)

text \<open>
  Against C7 as it is worded: when the first x value is NaN, \<open>x[0] != x[-1]\<close> holds
  again after the first call, and the second call appends one more point.
\<close>

theorem close_line_idempotent_counterexample:
  "xdata \<lparr>xdata = [NaN, Num 1], ydata = [Num 2, Num 3], line_color = None\<rparr> \<noteq> []
   \<and> close_line_twice \<lparr>xdata = [NaN, Num 1], ydata = [Num 2, Num 3], line_color = None\<rparr>
     \<noteq> close_line \<lparr>xdata = [NaN, Num 1], ydata = [Num 2, Num 3], line_color = None\<rparr>"
  by (simp add: close_line_twice_def close_line_eq float_ne_def)

text \<open>
  Claim C8. Whatever the arguments, whatever the library does and whatever happened
  before, \<open>draw\<close> first registers the class of 28 axes with the polygon frame, makes
  a figure and an axes of that class, and every line it then plots runs over the 28
  fixed angles (followed by the first of them, which closes the line).
\<close>

theorem draw_always_28:
  "\<exists>rest. snd (draw lib filename data label title w) =
       w @ [Register_projection (str ''radar'')
              \<lparr>cls_num_vars = 28, cls_frame = str ''polygon'', cls_theta = theta28\<rparr>,
            Figure (12, 12), Add_subplot axes28] @ rest
     \<and> (\<forall>l. Add_line l \<in> set rest \<longrightarrow> xdata l = map Num (theta28 @ [hd theta28]))
     \<and> ax_class axes28 = \<lparr>cls_num_vars = 28, cls_frame = str ''polygon'', cls_theta = theta28\<rparr>
     \<and> fst (radar_factory 28 (str ''polygon'') w) = Inr theta28
     \<and> theta28 = map (\<lambda>k. real k * 2 * pi64 / 28) [0..<28]"
proof -
  have a: "ax_class axes28 = \<lparr>cls_num_vars = 28, cls_frame = str ''polygon'', cls_theta = theta28\<rparr>"
    by (simp add: axes28_def class28_def)
  have b: "fst (radar_factory 28 (str ''polygon'') w) = Inr theta28"
    by (simp add: radar_factory28)
  have c: "theta28 = map (\<lambda>k. real k * 2 * pi64 / 28) [0..<28]"
    by (simp add: theta28_def)
  have series_x: "\<forall>l \<in> set (map2 series_line cs rows). xdata l = map Num (theta28 @ [hd theta28])"
    for cs rows
    by (auto simp: series_line_def)
  have d: "\<exists>rest. snd (draw lib filename data label title w) =
       w @ [Register_projection (str ''radar'') class28, Figure (12, 12), Add_subplot axes28] @ rest
     \<and> (\<forall>l. Add_line l \<in> set rest \<longrightarrow> xdata l = map Num (theta28 @ [hd theta28]))"
  proof (cases rule: draw_cases [of data lib filename label title w])
    case bad_data
    then show ?thesis by (intro exI [of _ "[Subplots_adjust 1 1 (fl 0.85) (fl 0.05)]"]) simp
  next
    case (bad_levels e)
    then show ?thesis by (intro exI [of _ "[Subplots_adjust 1 1 (fl 0.85) (fl 0.05)]"]) simp
  next
    case (stopped e ls)
    then show ?thesis
      by (intro exI [of _ "[Subplots_adjust 1 1 (fl 0.85) (fl 0.05), Set_rgrids (levels data)]
            @ map Add_line ls"]) auto
  next
    case reached
    let ?ls = "map2 series_line [str ''b'', str ''r''] (series data)"
    let ?body = "[Subplots_adjust 1 1 (fl 0.85) (fl 0.05), Set_rgrids (levels data)]
            @ map Add_line ?ls
            @ [Set_thetagrids (map degrees theta28) label,
               Legend ?ls legend_labels (- fl 0.13, fl 0.99) (fl 0.1) (str ''medium''),
               Fig_text 0.5 (fl 0.965) title]"
    have x: "\<forall>l. Add_line l \<in> set (?body @ tail) \<longrightarrow> xdata l = map Num (theta28 @ [hd theta28])"
      if "tail = [] \<or> tail = [Savefig filename]" for tail
      using that series_x [of "[str ''b'', str ''r'']" "series data"] by auto
    show ?thesis
    proof (cases "savefig_raises lib
           (w @ [Register_projection (str ''radar'') class28, Figure (12, 12), Add_subplot axes28]
              @ ?body) filename")
      case None
      with reached(6)
      have "snd (draw lib filename data label title w) =
          w @ [Register_projection (str ''radar'') class28, Figure (12, 12), Add_subplot axes28]
            @ (?body @ [Savefig filename])"
        by (simp add: savefig_def)
      with x [of "[Savefig filename]"] show ?thesis by blast
    next
      case (Some e)
      with reached(6)
      have "snd (draw lib filename data label title w) =
          w @ [Register_projection (str ''radar'') class28, Figure (12, 12), Add_subplot axes28]
            @ (?body @ [])"
        by (simp add: savefig_def)
      with x [of "[]"] show ?thesis by blast
    qed
  qed
  from a b c d show ?thesis by (simp add: class28_def)
qed

text \<open>
  A run that plots one series: its line is among the effects, over the 28 angles.
\<close>

theorem draw_always_28_witness:
  "\<exists>rest. snd (draw permissive (str ''out.png'') (Float_array [replicate 28 (Num 1)])
               (replicate 28 (str ''x'')) (str ''T'') []) =
       [Register_projection (str ''radar'')
          \<lparr>cls_num_vars = 28, cls_frame = str ''polygon'', cls_theta = theta28\<rparr>,
        Figure (12, 12), Add_subplot axes28] @ rest
     \<and> Add_line (series_line (str ''b'') (replicate 28 (Num 1))) \<in> set rest
     \<and> xdata (series_line (str ''b'') (replicate 28 (Num 1))) = map Num (theta28 @ [hd theta28])"
proof -
  let ?D = "Float_array [replicate 28 (Num 1)]"
  let ?d = "draw permissive (str ''out.png'') ?D (replicate 28 (str ''x'')) (str ''T'') []"
  from draw_always_28 [of permissive "str ''out.png''" ?D "replicate 28 (str ''x'')"
      "str ''T''" "[]"]
  obtain rest where r: "snd ?d =
       [] @ [Register_projection (str ''radar'')
          \<lparr>cls_num_vars = 28, cls_frame = str ''polygon'', cls_theta = theta28\<rparr>,
        Figure (12, 12), Add_subplot axes28] @ rest"
    and lines: "\<forall>l. Add_line l \<in> set rest \<longrightarrow> xdata l = map Num (theta28 @ [hd theta28])"
    by blast
  have "snd ?d = [Register_projection (str ''radar'') class28, Figure (12, 12), Add_subplot axes28,
           Subplots_adjust 1 1 (fl 0.85) (fl 0.05),
           Set_rgrids (levels ?D),
           Add_line (series_line (str ''b'') (replicate 28 (Num 1))),
           Set_thetagrids (map degrees theta28) (replicate 28 (str ''x'')),
           Legend [series_line (str ''b'') (replicate 28 (Num 1))] legend_labels
             (- fl 0.13, fl 0.99) (fl 0.1) (str ''medium''),
           Fig_text 0.5 (fl 0.965) (str ''T''),
           Savefig (str ''out.png'')]"
    by (simp add: draw_permissive series_def)
  with r have "Add_line (series_line (str ''b'') (replicate 28 (Num 1))) \<in> set rest"
    by auto
  moreover from this lines
  have "xdata (series_line (str ''b'') (replicate 28 (Num 1))) = map Num (theta28 @ [hd theta28])"
    by blast
  ultimately show ?thesis using r by auto
qed

text \<open>
  Claim C9, as far as the code goes. With at most two series every look-up
  \<open>colors[ind]\<close> succeeds and the loop raises no IndexError; nor does \<open>draw\<close>,
  unless the library raises one of its own. With three or more series of 28 numbers
  each and levels that \<open>set_rgrids\<close> accepts, \<open>draw\<close> plots the first two series
  and then raises IndexError at the third.
\<close>

theorem two_colors:
  "(length (series data) \<le> 2 \<longrightarrow>
      (\<forall>ind < length (series data).
         getitem [str ''b'', str ''r''] (int ind) = Inr ([str ''b'', str ''r''] ! ind))
      \<and> fst (plot_series theta28 [str ''b'', str ''r''] 0 (series data) w) \<noteq> Some IndexError
      \<and> ((\<forall>radii. set_rgrids_raises lib radii \<noteq> Some IndexError)
           \<and> (\<forall>w' name. savefig_raises lib w' name \<noteq> Some IndexError) \<longrightarrow>
         fst (draw lib filename data label title w) \<noteq> Some IndexError))
   \<and> (3 \<le> length (series data) \<and> (\<forall>row \<in> set (series data). length row = 28)
        \<and> set_rgrids_raises lib (levels data) = None \<longrightarrow>
      draw lib filename data label title w =
        (Some IndexError,
         w @ [Register_projection (str ''radar'') class28, Figure (12, 12), Add_subplot axes28,
              Subplots_adjust 1 1 (fl 0.85) (fl 0.05),
              Set_rgrids (levels data),
              Add_line (series_line (str ''b'') (series data ! 0)),
              Add_line (series_line (str ''r'') (series data ! 1))]))"
proof (intro conjI impI)
  assume le: "length (series data) \<le> 2"
  show "\<forall>ind < length (series data).
         getitem [str ''b'', str ''r''] (int ind) = Inr ([str ''b'', str ''r''] ! ind)"
    using le by (simp add: getitem_def)
  have "0 + length (series data) \<le> length [str ''b'', str ''r'']" using le by simp
  from plot_series_no_IndexError [OF this]
  show "fst (plot_series theta28 [str ''b'', str ''r''] 0 (series data) w) \<noteq> Some IndexError"
    by simp
next
  assume le: "length (series data) \<le> 2"
    and lib: "(\<forall>radii. set_rgrids_raises lib radii \<noteq> Some IndexError)
           \<and> (\<forall>w' name. savefig_raises lib w' name \<noteq> Some IndexError)"
  have "0 + length (series data) \<le> length [str ''b'', str ''r'']" using le by simp
  from plot_series_no_IndexError [OF this]
  have ps: "fst (plot_series theta28 [str ''b'', str ''r''] 0 (series data) w') \<noteq> Some IndexError"
    for w'
    by simp
  show "fst (draw lib filename data label title w) \<noteq> Some IndexError"
  proof (cases "rejected data \<or> empty_array data")
    case True
    then show ?thesis by (simp add: draw_eq)
  next
    case ok: False
    show ?thesis
    proof (cases "set_rgrids_raises lib (levels data)")
      case (Some e)
      with lib have "e \<noteq> IndexError" by metis
      with ok Some show ?thesis by (simp add: draw_eq)
    next
      case None
      let ?w4 = "w @ [Register_projection (str ''radar'') class28, Figure (12, 12),
                      Add_subplot axes28, Subplots_adjust 1 1 (fl 0.85) (fl 0.05),
                      Set_rgrids (levels data)]"
      obtain e w5 where r: "plot_series theta28 [str ''b'', str ''r''] 0 (series data) ?w4 = (e, w5)"
        by (cases "plot_series theta28 [str ''b'', str ''r''] 0 (series data) ?w4") blast
      with ps [of ?w4] have e: "e \<noteq> Some IndexError" by simp
      have sf: "fst (savefig lib filename w') \<noteq> Some IndexError" for w'
        using lib by (auto simp: savefig_def split: option.splits)
      from ok None r e sf show ?thesis
        by (cases e) (auto simp: draw_eq set_varlabels_def)
    qed
  qed
next
  assume a: "3 \<le> length (series data) \<and> (\<forall>row \<in> set (series data). length row = 28)
        \<and> set_rgrids_raises lib (levels data) = None"
  then obtain r0 r1 r2 rest where d: "series data = r0 # r1 # r2 # rest"
    by (cases "series data"; cases "tl (series data)"; cases "tl (tl (series data))") auto
  with a have len: "length r0 = 28" "length r1 = 28" by simp_all
  from a have acc: "\<not> rejected data" by (simp add: rows28_accepted)
  from a d have ne: "\<not> empty_array data" by (intro rows28_not_empty) auto
  have ps: "plot_series theta28 [str ''b'', str ''r''] 0 (series data) w' =
     (Some IndexError,
      w' @ [Add_line (series_line (str ''b'') (series data ! 0)),
            Add_line (series_line (str ''r'') (series data ! 1))])" for w'
    unfolding d using plot_series_third [OF len] by simp
  from acc ne a show "draw lib filename data label title w =
        (Some IndexError,
         w @ [Register_projection (str ''radar'') class28, Figure (12, 12), Add_subplot axes28,
              Subplots_adjust 1 1 (fl 0.85) (fl 0.05),
              Set_rgrids (levels data),
              Add_line (series_line (str ''b'') (series data ! 0)),
              Add_line (series_line (str ''r'') (series data ! 1))])"
    by (simp add: draw_eq ps)
qed

text \<open>
  Two series and three series of 28 values.
\<close>

theorem two_colors_witness:
  "getitem [str ''b'', str ''r''] 1 = Inr (str ''r'')
   \<and> fst (draw permissive (str ''out.png'')
           (Int_array [replicate 28 1, replicate 28 2]) [] (str ''T'') []) \<noteq> Some IndexError
   \<and> fst (draw permissive (str ''out.png'')
           (Int_array [replicate 28 1, replicate 28 2, replicate 28 3]) []
           (str ''T'') []) = Some IndexError"
proof -
  let ?two = "Int_array [replicate 28 1, replicate 28 2]"
  let ?three = "Int_array [replicate 28 1, replicate 28 2, replicate 28 3]"
  have l2: "length (series ?two) \<le> 2" by (simp add: series_def)
  from two_colors [of ?two "[]" permissive "str ''out.png''" "[]" "str ''T''"] l2
  have all: "\<forall>ind < length (series ?two).
         getitem [str ''b'', str ''r''] (int ind) = Inr ([str ''b'', str ''r''] ! ind)"
    and no: "(\<forall>radii. set_rgrids_raises permissive radii \<noteq> Some IndexError)
           \<and> (\<forall>w' name. savefig_raises permissive w' name \<noteq> Some IndexError) \<longrightarrow>
         fst (draw permissive (str ''out.png'') ?two [] (str ''T'') []) \<noteq> Some IndexError"
    by blast+
  have "(1::nat) < length (series ?two)" by (simp add: series_def)
  with all have "getitem [str ''b'', str ''r''] (int 1) = Inr ([str ''b'', str ''r''] ! 1)"
    by blast
  then have one: "getitem [str ''b'', str ''r''] 1 = Inr (str ''r'')" by simp
  from no have two: "fst (draw permissive (str ''out.png'') ?two [] (str ''T'') []) \<noteq> Some IndexError"
    by (simp add: permissive_def)
  have "3 \<le> length (series ?three) \<and> (\<forall>row \<in> set (series ?three). length row = 28)
      \<and> set_rgrids_raises permissive (levels ?three) = None"
    by (simp add: series_def permissive_def)
  with two_colors [of ?three "[]" permissive "str ''out.png''" "[]" "str ''T''"]
  have "fst (draw permissive (str ''out.png'') ?three [] (str ''T'') []) = Some IndexError"
    by simp
  with one two show ?thesis by simp
qed

text \<open>
  Against C9 as it is worded: three series of one number each, with levels that are
  accepted. The first call of \<open>plot\<close> is given 28 angles and one value and raises
  ValueError, so the loop never reaches the third colour.
\<close>

theorem two_colors_counterexample:
  "3 \<le> length (series (Int_array [[1], [2], [3]]))
   \<and> set_rgrids_raises permissive (levels (Int_array [[1], [2], [3]])) = None
   \<and> fst (draw permissive (str ''out.png'') (Int_array [[1], [2], [3]]) [] (str ''T'') [])
       = Some ValueError"
proof -
  let ?D = "Int_array [[1], [2], [3]]"
  have s: "series ?D = [[Num 1], [Num 2], [Num 3]]" by (simp add: series_def)
  have "RadarAxes_plot [(map Num theta28, [Num 1])] (Some (str ''b'')) = Inl ValueError"
    by (simp only: plot_row) simp
  then have "plot_series theta28 [str ''b'', str ''r''] 0 [[Num 1], [Num 2], [Num 3]] w' =
      (Some ValueError, w')" for w'
    by (simp add: getitem_def)
  moreover have "\<not> rejected ?D" "\<not> empty_array ?D"
    by (simp_all add: rejected_def ragged_def empty_array_def elements_def)
  ultimately show ?thesis
    by (simp add: draw_eq s permissive_def)
qed

text \<open>
  Claim C10, as far as the code goes. The labels \<open>draw\<close> passes to \<open>legend\<close> are
  always the same four texts, and the legend shows the first of them for one plotted
  series and the first two for two: a run adds no legend, or the legend with as many
  of the four texts as there are series; a run that ends well has added it. Hence two
  runs that end well, from the same state and with equally many series, leave the
  same legend texts, whatever their file names, labels, titles and values.
\<close>

theorem legend_fixed:
  "(legend_arguments (snd (draw lib filename data label title w)) = legend_arguments w
    \<or> legend_arguments (snd (draw lib filename data label title w)) =
        legend_arguments w @ [
         [[1053, 1072, 1095, 1072, 1083, 1100, 1085, 1099, 1077, 32, 1074, 1099, 1095, 1080,
           1089, 1083, 1077, 1085, 1080, 1103],
          [1042, 1099, 1095, 1080, 1089, 1083, 1077, 1085, 1080, 1103, 32, 1095, 1077, 1088,
           1077, 1079, 32, 49, 47, 52, 32, 1087, 1088, 1086, 1093, 1086, 1076, 1086, 1074],
          [1042, 1099, 1095, 1080, 1089, 1083, 1077, 1085, 1080, 1103, 32, 1095, 1077, 1088,
           1077, 1079, 32, 51, 47, 52, 32, 1087, 1088, 1086, 1093, 1086, 1076, 1086, 1074],
          [1050, 1086, 1085, 1077, 1095, 1085, 1099, 1077, 32, 1074, 1099, 1095, 1080, 1089,
           1083, 1077, 1085, 1080, 1103]]])
   \<and> (legends (snd (draw lib filename data label title w)) = legends w
    \<or> legends (snd (draw lib filename data label title w)) =
        legends w @ [take (length (series data))
         [[1053, 1072, 1095, 1072, 1083, 1100, 1085, 1099, 1077, 32, 1074, 1099, 1095, 1080,
           1089, 1083, 1077, 1085, 1080, 1103],
          [1042, 1099, 1095, 1080, 1089, 1083, 1077, 1085, 1080, 1103, 32, 1095, 1077, 1088,
           1077, 1079, 32, 49, 47, 52, 32, 1087, 1088, 1086, 1093, 1086, 1076, 1086, 1074],
          [1042, 1099, 1095, 1080, 1089, 1083, 1077, 1085, 1080, 1103, 32, 1095, 1077, 1088,
           1077, 1079, 32, 51, 47, 52, 32, 1087, 1088, 1086, 1093, 1086, 1076, 1086, 1074],
          [1050, 1086, 1085, 1077, 1095, 1085, 1099, 1077, 32, 1074, 1099, 1095, 1080, 1089,
           1083, 1077, 1085, 1080, 1103]]])
   \<and> (fst (draw lib filename data label title w) = None \<longrightarrow>
        legend_arguments (snd (draw lib filename data label title w)) =
          legend_arguments w @ [
         [[1053, 1072, 1095, 1072, 1083, 1100, 1085, 1099, 1077, 32, 1074, 1099, 1095, 1080,
           1089, 1083, 1077, 1085, 1080, 1103],
          [1042, 1099, 1095, 1080, 1089, 1083, 1077, 1085, 1080, 1103, 32, 1095, 1077, 1088,
           1077, 1079, 32, 49, 47, 52, 32, 1087, 1088, 1086, 1093, 1086, 1076, 1086, 1074],
          [1042, 1099, 1095, 1080, 1089, 1083, 1077, 1085, 1080, 1103, 32, 1095, 1077, 1088,
           1077, 1079, 32, 51, 47, 52, 32, 1087, 1088, 1086, 1093, 1086, 1076, 1086, 1074],
          [1050, 1086, 1085, 1077, 1095, 1085, 1099, 1077, 32, 1074, 1099, 1095, 1080, 1089,
           1083, 1077, 1085, 1080, 1103]]]
        \<and> legends (snd (draw lib filename data label title w)) =
          legends w @ [take (length (series data))
         [[1053, 1072, 1095, 1072, 1083, 1100, 1085, 1099, 1077, 32, 1074, 1099, 1095, 1080,
           1089, 1083, 1077, 1085, 1080, 1103],
          [1042, 1099, 1095, 1080, 1089, 1083, 1077, 1085, 1080, 1103, 32, 1095, 1077, 1088,
           1077, 1079, 32, 49, 47, 52, 32, 1087, 1088, 1086, 1093, 1086, 1076, 1086, 1074],
          [1042, 1099, 1095, 1080, 1089, 1083, 1077, 1085, 1080, 1103, 32, 1095, 1077, 1088,
           1077, 1079, 32, 51, 47, 52, 32, 1087, 1088, 1086, 1093, 1086, 1076, 1086, 1074],
          [1050, 1086, 1085, 1077, 1095, 1085, 1099, 1077, 32, 1074, 1099, 1095, 1080, 1089,
           1083, 1077, 1085, 1080, 1103]]]
        \<and> 1 \<le> length (series data) \<and> length (series data) \<le> 2)
   \<and> (fst (draw lib filename data label title w) = None
        \<and> fst (draw lib' filename' data' label' title' w) = None
        \<and> length (series data) = length (series data') \<longrightarrow>
        legends (snd (draw lib filename data label title w)) =
          legends (snd (draw lib' filename' data' label' title' w)))"
proof -
  have a: "legends (snd (draw lib filename data label title w)) = legends w
    \<or> legends (snd (draw lib filename data label title w)) =
        legends w @ [take (length (series data)) legend_labels]"
    by (rule draw_legends)
  have a': "legend_arguments (snd (draw lib filename data label title w)) = legend_arguments w
    \<or> legend_arguments (snd (draw lib filename data label title w)) =
        legend_arguments w @ [legend_labels]"
    by (rule draw_legend_arguments)
  have b: "legend_arguments (snd (draw lib filename data label title w)) =
          legend_arguments w @ [legend_labels]
        \<and> legends (snd (draw lib filename data label title w)) =
          legends w @ [take (length (series data)) legend_labels]
        \<and> 1 \<le> length (series data) \<and> length (series data) \<le> 2"
    if "fst (draw lib filename data label title w) = None"
    using draw_legends_ok [OF that] draw_legend_arguments_ok [OF that]
    by (cases "series data") simp_all
  have c: "legends (snd (draw lib filename data label title w)) =
          legends (snd (draw lib' filename' data' label' title' w))"
    if "fst (draw lib filename data label title w) = None"
      "fst (draw lib' filename' data' label' title' w) = None"
      "length (series data) = length (series data')"
    using draw_legends_ok [OF that(1)] draw_legends_ok [OF that(2)] that(3) by simp
  from a a' b c show ?thesis unfolding legend_labels_def by blast
qed

text \<open>
  Two runs with one series each that differ in file name, values, labels and title.
\<close>

theorem legend_fixed_witness:
  "fst (draw permissive (str ''a.png'') (Float_array [replicate 28 (Num 1)])
          (replicate 28 (str ''x'')) (str ''T'') []) = None
   \<and> length (legend_arguments (snd (draw permissive (str ''a.png'')
          (Float_array [replicate 28 (Num 1)]) (replicate 28 (str ''x'')) (str ''T'') []))) = 1
   \<and> fst (draw permissive (str ''b.png'') (Int_array [replicate 28 2])
          (replicate 28 (str ''y'')) (str ''U'') []) = None
   \<and> legends (snd (draw permissive (str ''a.png'') (Float_array [replicate 28 (Num 1)])
          (replicate 28 (str ''x'')) (str ''T'') []))
       = [[[1053, 1072, 1095, 1072, 1083, 1100, 1085, 1099, 1077, 32, 1074, 1099, 1095, 1080,
          1089, 1083, 1077, 1085, 1080, 1103]]]
   \<and> legends (snd (draw permissive (str ''b.png'') (Int_array [replicate 28 2])
          (replicate 28 (str ''y'')) (str ''U'') []))
       = [[[1053, 1072, 1095, 1072, 1083, 1100, 1085, 1099, 1077, 32, 1074, 1099, 1095, 1080,
          1089, 1083, 1077, 1085, 1080, 1103]]]"
proof -
  let ?A = "Float_array [replicate 28 (Num 1)]"
  let ?B = "Int_array [replicate 28 2]"
  have a: "fst (draw permissive (str ''a.png'') ?A (replicate 28 (str ''x'')) (str ''T'') [])
      = None"
    by (simp add: draw_permissive series_def)
  have b: "fst (draw permissive (str ''b.png'') ?B (replicate 28 (str ''y'')) (str ''U'') [])
      = None"
    by (simp add: draw_permissive series_def)
  have la: "length (series ?A) = 1" and lb: "length (series ?B) = 1" by (simp_all add: series_def)
  from legend_fixed [of permissive "str ''a.png''" ?A "replicate 28 (str ''x'')" "str ''T''" "[]"
      permissive "str ''b.png''" ?B "replicate 28 (str ''y'')" "str ''U''"] a b la lb
  show ?thesis by auto
qed

text \<open>
  Against C10 as it is worded: two runs that differ in the data only, one series
  against two. Their legends differ: one text against two.
\<close>

theorem legend_fixed_counterexample:
  "fst (draw permissive (str ''a.png'') (Float_array [replicate 28 (Num 1)])
          (replicate 28 (str ''x'')) (str ''T'') []) = None
   \<and> fst (draw permissive (str ''a.png'')
          (Float_array [replicate 28 (Num 1), replicate 28 (Num 1)])
          (replicate 28 (str ''x'')) (str ''T'') []) = None
   \<and> legends (snd (draw permissive (str ''a.png'') (Float_array [replicate 28 (Num 1)])
          (replicate 28 (str ''x'')) (str ''T'') []))
       = [[[1053, 1072, 1095, 1072, 1083, 1100, 1085, 1099, 1077, 32, 1074, 1099, 1095, 1080,
          1089, 1083, 1077, 1085, 1080, 1103]]]
   \<and> legends (snd (draw permissive (str ''a.png'')
          (Float_array [replicate 28 (Num 1), replicate 28 (Num 1)])
          (replicate 28 (str ''x'')) (str ''T'') []))
       = [[[1053, 1072, 1095, 1072, 1083, 1100, 1085, 1099, 1077, 32, 1074, 1099, 1095, 1080,
          1089, 1083, 1077, 1085, 1080, 1103],
         [1042, 1099, 1095, 1080, 1089, 1083, 1077, 1085, 1080, 1103, 32, 1095, 1077, 1088,
          1077, 1079, 32, 49, 47, 52, 32, 1087, 1088, 1086, 1093, 1086, 1076, 1086, 1074]]]"
proof -
  let ?A = "Float_array [replicate 28 (Num 1)]"
  let ?B = "Float_array [replicate 28 (Num 1), replicate 28 (Num 1)]"
  have a: "fst (draw permissive (str ''a.png'') ?A (replicate 28 (str ''x'')) (str ''T'') [])
      = None"
    by (simp add: draw_permissive series_def)
  have b: "fst (draw permissive (str ''a.png'') ?B (replicate 28 (str ''x'')) (str ''T'') [])
      = None"
    by (simp add: draw_permissive series_def)
  have la: "length (series ?A) = 1" and lb: "length (series ?B) = 2" by (simp_all add: series_def)
  from draw_legends_ok [OF a] draw_legends_ok [OF b] a b la lb
  show ?thesis by (simp add: legend_labels_def)
qed

end
